theory Spec2Isabelle
  imports Main "HOL-Library.Sublist"
begin

section \<open>The rbd-mirror reconciler (pkg/operator/ceph/cluster/rbd/mirror.go)\<close>

subsection \<open>Cluster objects and the cluster API\<close>

text \<open>
  Labels and selectors are association lists, looked up with \<open>map_of\<close>. A deployment is
  reduced to the fields the reconciler reads: its name, its labels, its selector (the
  immutable field of the scheduler) and its pod template, kept opaque.
\<close>

type_synonym labels = "(string \<times> string) list"

record Deployment =
  dName :: string
  dLabels :: labels
  dSelector :: labels
  dTemplate :: string

record ResourceRequirements =
  LimitsMemory :: nat
  RequestsMemory :: nat

record CephRBDMirror =
  mName :: string
  mNamespace :: string
  mCount :: nat
  mResources :: ResourceRequirements

record daemonConfig =
  DaemonID :: string
  ResourceName :: string

text \<open>Errors of the cluster API (\<open>kerrors\<close>) and the errors \<open>start\<close> returns, one per wrap site.\<close>

datatype kerr = AlreadyExists | NotFound | Invalid | ServerError

datatype error =
    ErrCheckingPodMemory
  | ErrOwnerReference
  | ErrGenerateKeyring kerr
  | ErrMakeDeployment
  | ErrSetOwnerReference
  | ErrSetAnnotation
  | ErrCreate kerr
  | ErrDeleteDuringRecreate kerr
  | ErrRecreate kerr
  | ErrGetMirrors kerr
  | ErrAuthDelete kerr

text \<open>Every request sent to the cluster or to Ceph is recorded, oldest first.\<close>

datatype call =
    GenerateKeyring string
  | CreateDeployment Deployment
  | UpdateDeployment Deployment
  | DeleteDeployment string
  | ListDeployments
  | AuthDelete string

text \<open>
  The live state of one namespace: the deployments, the cephx keys that exist, and the
  requests made so far. All requests of \<open>start\<close> go to \<open>cephRBDMirror.Namespace\<close>, so
  one namespace is modelled.
\<close>

record cluster =
  deployments :: "Deployment list"
  keys :: "string list"
  calls :: "call list"

text \<open>
  A request can fail for reasons outside the model (network, admission). The fault
  schedule says whether the server fails a request, given its position in the trace.
\<close>

type_synonym faults = "nat \<Rightarrow> call \<Rightarrow> bool"

definition AppName :: string where
  "AppName = ''rook-ceph-rbd-mirror''"

definition cephRbdMirrorPodMinimumMemory :: nat where
  "cephRbdMirrorPodMinimumMemory = 512"

definition record_call :: "call \<Rightarrow> cluster \<Rightarrow> cluster" where
  "record_call c st = st\<lparr>calls := calls st @ [c]\<rparr>"

definition exists_deployment :: "string \<Rightarrow> cluster \<Rightarrow> bool" where
  "exists_deployment n st = (n \<in> set (map dName (deployments st)))"

text \<open>
  Modelled from the spec: the scheduler's client (Clientset.AppsV1().Deployments) is an
  external collaborator. Create fails with AlreadyExists on a name that is live;
  Delete fails with NotFound on a name that is not.
\<close>

definition Create :: "faults \<Rightarrow> Deployment \<Rightarrow> cluster \<Rightarrow> (kerr + unit) \<times> cluster" where
  "Create f d st =
     (let st' = record_call (CreateDeployment d) st in
      if f (length (calls st)) (CreateDeployment d) then (Inl ServerError, st')
      else if exists_deployment (dName d) st then (Inl AlreadyExists, st')
      else (Inr (), st'\<lparr>deployments := deployments st @ [d]\<rparr>))"

definition Delete :: "faults \<Rightarrow> string \<Rightarrow> cluster \<Rightarrow> (kerr + unit) \<times> cluster" where
  "Delete f n st =
     (let st' = record_call (DeleteDeployment n) st in
      if f (length (calls st)) (DeleteDeployment n) then (Inl ServerError, st')
      else if \<not> exists_deployment n st then (Inl NotFound, st')
      else (Inr (), st'\<lparr>deployments := filter (\<lambda>x. dName x \<noteq> n) (deployments st)\<rparr>))"

definition has_label :: "string \<Rightarrow> string \<Rightarrow> Deployment \<Rightarrow> bool" where
  "has_label k v d = (map_of (dLabels d) k = Some v)"

definition List :: "faults \<Rightarrow> string \<Rightarrow> string \<Rightarrow> cluster \<Rightarrow> (kerr + Deployment list) \<times> cluster" where
  "List f k v st =
     (let st' = record_call ListDeployments st in
      if f (length (calls st)) (ListDeployments) then (Inl ServerError, st')
      else (Inr (filter (has_label k v) (deployments st)), st'))"

text \<open>
  Modelled from the spec: mon.UpdateCephDeploymentAndWait is not under src/. Section 4.5:
  the in-place update replaces the live resource, and is rejected when an immutable
  selector-like field would need to change.
\<close>

definition updateDeploymentAndWait :: "faults \<Rightarrow> Deployment \<Rightarrow> cluster \<Rightarrow> (kerr + unit) \<times> cluster" where
  "updateDeploymentAndWait f d st =
     (let st' = record_call (UpdateDeployment d) st in
      if f (length (calls st)) (UpdateDeployment d) then (Inl ServerError, st')
      else (case find (\<lambda>x. dName x = dName d) (deployments st) of
              None \<Rightarrow> (Inl NotFound, st')
            | Some live \<Rightarrow>
                if dSelector live \<noteq> dSelector d then (Inl Invalid, st')
                else (Inr (), st'\<lparr>deployments :=
                        map (\<lambda>x. if dName x = dName d then d else x) (deployments st)\<rparr>)))"

text \<open>
  Modelled from the spec: client.AuthDelete and the reconciler's generateKeyring are not
  under src/. A credential is a cephx entity name; deleting removes it, generating adds it.
\<close>

definition AuthDelete_key :: "faults \<Rightarrow> string \<Rightarrow> cluster \<Rightarrow> (kerr + unit) \<times> cluster" where
  "AuthDelete_key f n st =
     (let st' = record_call (AuthDelete n) st in
      if f (length (calls st)) (AuthDelete n) then (Inl ServerError, st')
      else (Inr (), st'\<lparr>keys := filter (\<lambda>k. k \<noteq> n) (keys st)\<rparr>))"

definition generateKeyring :: "faults \<Rightarrow> string \<Rightarrow> cluster \<Rightarrow> (kerr + unit) \<times> cluster" where
  "generateKeyring f n st =
     (let st' = record_call (GenerateKeyring n) st in
      if f (length (calls st)) (GenerateKeyring n) then (Inl ServerError, st')
      else (Inr (), st'\<lparr>keys := (if n \<in> set (keys st) then keys st else keys st @ [n])\<rparr>))"

subsection \<open>Helpers of other packages, taken as parameters\<close>

text \<open>
  \<open>start\<close> calls helpers that live in other packages of the repository: the pod memory
  check, the owner reference, the daemon naming of k8sutil, the rbd-mirror deployment
  builder and the annotator. Their results are parameters of the model. \<open>True\<close> in a
  boolean field means that the helper returns an error.
\<close>

datatype ownerref = RefError | RefNil | RefOk

record mirror_deps =
  CheckPodMemory :: "ResourceRequirements \<Rightarrow> nat \<Rightarrow> bool"
  GetControllerObjectOwnerReference :: "CephRBDMirror \<Rightarrow> ownerref"
  IndexToName :: "nat \<Rightarrow> string"
  NameToIndex :: "string \<Rightarrow> int option"
  fullDaemonName :: "string \<Rightarrow> string"
  rbd_makeDeployment :: "daemonConfig \<Rightarrow> CephRBDMirror \<Rightarrow> Deployment option"
  SetControllerReference :: "CephRBDMirror \<Rightarrow> Deployment \<Rightarrow> bool"
  SetLastAppliedAnnotation :: "Deployment \<Rightarrow> bool"
  api_faults :: faults

subsection \<open>removeExtraMirrors\<close>

text \<open>
  The loop over \<open>d.Items\<close>. A deployment without the \<open>rbd-mirror\<close> label, with a label
  that is no daemon name, or with index 0 is skipped. A failed delete of the deployment
  is logged and the loop goes on to the key; a failed delete of the key returns.
\<close>

fun remove_loop :: "mirror_deps \<Rightarrow> Deployment list \<Rightarrow> cluster \<Rightarrow> (error + unit) \<times> cluster" where
  "remove_loop deps [] st = (Inr (), st)"
| "remove_loop deps (deploy # rest) st =
     (case map_of (dLabels deploy) ''rbd-mirror'' of
        None \<Rightarrow> remove_loop deps rest st
      | Some daemonName \<Rightarrow>
          (case NameToIndex deps daemonName of
             None \<Rightarrow> remove_loop deps rest st
           | Some index \<Rightarrow>
               if index = 0 then remove_loop deps rest st
               else
                 (let st1 = snd (Delete (api_faults deps) (dName deploy) st) in
                  case AuthDelete_key (api_faults deps) (fullDaemonName deps daemonName) st1 of
                    (Inl e, st2) \<Rightarrow> (Inl (ErrAuthDelete e), st2)
                  | (Inr _, st2) \<Rightarrow> remove_loop deps rest st2)))"

definition removeExtraMirrors :: "mirror_deps \<Rightarrow> CephRBDMirror \<Rightarrow> cluster \<Rightarrow> (error + unit) \<times> cluster" where
  "removeExtraMirrors deps cephRBDMirror st =
     (case List (api_faults deps) ''app'' AppName st of
        (Inl e, st1) \<Rightarrow> (Inl (ErrGetMirrors e), st1)
      | (Inr items, st1) \<Rightarrow>
          if length items > 1 then remove_loop deps items st1 else (Inr (), st1))"

subsection \<open>start\<close>

text \<open>
  The create / update / delete-and-recreate protocol. The delete of the fallback is sent
  for \<open>cephRBDMirror.Name\<close>, as the source writes it.
\<close>

definition converge :: "mirror_deps \<Rightarrow> CephRBDMirror \<Rightarrow> Deployment \<Rightarrow> cluster \<Rightarrow> (error + unit) \<times> cluster" where
  "converge deps cephRBDMirror d st =
     (case Create (api_faults deps) d st of
        (Inr _, st1) \<Rightarrow> (Inr (), st1)
      | (Inl e, st1) \<Rightarrow>
          if e \<noteq> AlreadyExists then (Inl (ErrCreate e), st1)
          else
            (case updateDeploymentAndWait (api_faults deps) d st1 of
               (Inr _, st2) \<Rightarrow> (Inr (), st2)
             | (Inl _, st2) \<Rightarrow>
                 (case Delete (api_faults deps) (mName cephRBDMirror) st2 of
                    (Inl e3, st3) \<Rightarrow> (Inl (ErrDeleteDuringRecreate e3), st3)
                  | (Inr _, st3) \<Rightarrow>
                      (case Create (api_faults deps) d st3 of
                         (Inl e4, st4) \<Rightarrow> (Inl (ErrRecreate e4), st4)
                       | (Inr _, st4) \<Rightarrow> (Inr (), st4)))))"

text \<open>
  \<open>errors.Wrapf\<close> of a nil error is nil: when the owner reference is nil without an
  error, \<open>start\<close> returns nil and has done nothing.
\<close>

definition start :: "mirror_deps \<Rightarrow> CephRBDMirror \<Rightarrow> cluster \<Rightarrow> (error + unit) \<times> cluster" where
  "start deps cephRBDMirror st =
     (if CheckPodMemory deps (mResources cephRBDMirror) cephRbdMirrorPodMinimumMemory
      then (Inl ErrCheckingPodMemory, st)
      else
        (case GetControllerObjectOwnerReference deps cephRBDMirror of
           RefError \<Rightarrow> (Inl ErrOwnerReference, st)
         | RefNil \<Rightarrow> (Inr (), st)
         | RefOk \<Rightarrow>
            (let daemonID = IndexToName deps 0;
                 resourceName = AppName @ ''-'' @ daemonID;
                 daemonConf = \<lparr>DaemonID = daemonID, ResourceName = resourceName\<rparr>
             in case generateKeyring (api_faults deps) (fullDaemonName deps daemonID) st of
                  (Inl e, st1) \<Rightarrow> (Inl (ErrGenerateKeyring e), st1)
                | (Inr _, st1) \<Rightarrow>
                   (case rbd_makeDeployment deps daemonConf cephRBDMirror of
                      None \<Rightarrow> (Inl ErrMakeDeployment, st1)
                    | Some d \<Rightarrow>
                        if SetControllerReference deps cephRBDMirror d
                        then (Inl ErrSetOwnerReference, st1)
                        else if SetLastAppliedAnnotation deps d
                        then (Inl ErrSetAnnotation, st1)
                        else
                          (case converge deps cephRBDMirror d st1 of
                             (Inl e, st2) \<Rightarrow> (Inl e, st2)
                           | (Inr _, st2) \<Rightarrow>
                               (Inr (), snd (removeExtraMirrors deps cephRBDMirror st2)))))))"

subsection \<open>An instance of the parameters\<close>

text \<open>
  The instance used in the examples: no helper fails, no request is failed by the server,
  the daemon names are \<open>a\<close>, \<open>b\<close>, \<open>c\<close> for the indices 0, 1, 2, and the deployment built for
  a daemon carries the resource name of its configuration.
\<close>

definition letterIndex :: "string \<Rightarrow> int option" where
  "letterIndex n =
     (if n = ''a'' then Some 0 else if n = ''b'' then Some 1
      else if n = ''c'' then Some 2 else None)"

definition indexLetter :: "nat \<Rightarrow> string" where
  "indexLetter i = (if i = 0 then ''a'' else if i = 1 then ''b'' else ''c'')"

definition mirrorDeployment :: "string \<Rightarrow> string \<Rightarrow> string \<Rightarrow> Deployment" where
  "mirrorDeployment daemon sel tmpl =
     \<lparr>dName = AppName @ ''-'' @ daemon,
      dLabels = [(''app'', AppName), (''rbd-mirror'', daemon)],
      dSelector = [(''app'', sel)],
      dTemplate = tmpl\<rparr>"

definition no_faults :: faults where
  "no_faults n c = False"

definition example_deps :: mirror_deps where
  "example_deps =
     \<lparr>CheckPodMemory = (\<lambda>r m. LimitsMemory r \<noteq> 0 \<and> LimitsMemory r < m),
      GetControllerObjectOwnerReference = (\<lambda>_. RefOk),
      IndexToName = indexLetter,
      NameToIndex = letterIndex,
      fullDaemonName = (\<lambda>n. ''client.rbd-mirror.'' @ n),
      rbd_makeDeployment = (\<lambda>conf m. Some (mirrorDeployment (DaemonID conf) AppName ''desired'')),
      SetControllerReference = (\<lambda>_ _. False),
      SetLastAppliedAnnotation = (\<lambda>_. False),
      api_faults = no_faults\<rparr>"

definition example_mirror :: "nat \<Rightarrow> CephRBDMirror" where
  "example_mirror mem =
     \<lparr>mName = ''my-rbd-mirror'', mNamespace = ''rook-ceph'', mCount = 1,
      mResources = \<lparr>LimitsMemory = mem, RequestsMemory = 0\<rparr>\<rparr>"

subsection \<open>What the cleanup pass is observed by\<close>

text \<open>
  The identity of a deployment is the index of the daemon name in its \<open>rbd-mirror\<close>
  label, when it has one that is a daemon name. The loop removes the deployments whose
  identity is known and not 0, the stale ones. The credential of a deployment is the
  cephx entity of its daemon name.
\<close>

definition identity :: "mirror_deps \<Rightarrow> Deployment \<Rightarrow> int option" where
  "identity deps d =
     (case map_of (dLabels d) ''rbd-mirror'' of None \<Rightarrow> None | Some n \<Rightarrow> NameToIndex deps n)"

definition stale :: "mirror_deps \<Rightarrow> Deployment \<Rightarrow> bool" where
  "stale deps d = (case identity deps d of None \<Rightarrow> False | Some i \<Rightarrow> i \<noteq> 0)"

definition credential :: "mirror_deps \<Rightarrow> Deployment \<Rightarrow> string" where
  "credential deps d =
     (case map_of (dLabels d) ''rbd-mirror'' of None \<Rightarrow> [] | Some n \<Rightarrow> fullDaemonName deps n)"

definition mirrors :: "cluster \<Rightarrow> Deployment list" where
  "mirrors st = filter (has_label ''app'' AppName) (deployments st)"

subsection \<open>Example clusters\<close>

definition three_mirrors :: cluster where
  "three_mirrors =
     \<lparr>deployments = [mirrorDeployment ''a'' AppName ''desired'',
                     mirrorDeployment ''b'' AppName ''legacy'',
                     mirrorDeployment ''c'' AppName ''legacy''],
      keys = [''client.rbd-mirror.a'', ''client.rbd-mirror.b'', ''client.rbd-mirror.c''],
      calls = []\<rparr>"

text \<open>A live deployment of the class that carries no \<open>rbd-mirror\<close> label.\<close>

definition unlabelled_mirror :: Deployment where
  "unlabelled_mirror =
     \<lparr>dName = ''rook-ceph-rbd-mirror'', dLabels = [(''app'', AppName)],
      dSelector = [(''app'', AppName)], dTemplate = ''legacy''\<rparr>"

definition unlabelled_cluster :: cluster where
  "unlabelled_cluster =
     \<lparr>deployments = [mirrorDeployment ''a'' AppName ''desired'', unlabelled_mirror],
      keys = [''client.rbd-mirror.a''], calls = []\<rparr>"

text \<open>The live deployment of daemon \<open>a\<close> has another selector than the desired one.\<close>

definition conflicting_cluster :: cluster where
  "conflicting_cluster =
     \<lparr>deployments = [mirrorDeployment ''a'' ''old-app'' ''old''], keys = [], calls = []\<rparr>"

text \<open>The server fails the request that deletes the key, or the deployment, of daemon \<open>b\<close>.\<close>

definition authdelete_fault_deps :: mirror_deps where
  "authdelete_fault_deps =
     example_deps\<lparr>api_faults := (\<lambda>n c. c = AuthDelete ''client.rbd-mirror.b'')\<rparr>"

definition delete_fault_deps :: mirror_deps where
  "delete_fault_deps =
     example_deps\<lparr>api_faults := (\<lambda>n c. c = DeleteDeployment ''rook-ceph-rbd-mirror-b'')\<rparr>"

text \<open>
  The three mirrors once \<open>start\<close> has generated the keyring of daemon \<open>a\<close> and converged
  its deployment (the create answers AlreadyExists, the update goes through).
\<close>

definition converged_three_mirrors :: cluster where
  "converged_three_mirrors =
     three_mirrors\<lparr>calls := [GenerateKeyring ''client.rbd-mirror.a'',
                             CreateDeployment (mirrorDeployment ''a'' AppName ''desired''),
                             UpdateDeployment (mirrorDeployment ''a'' AppName ''desired'')]\<rparr>"

section \<open>The shell programs of the init containers (pkg/operator/ceph/cluster/osd/spec.go)\<close>

subsection \<open>Files\<close>

text \<open>
  The part of a container's file system the scripts read and write: a path holds a
  regular file with its contents, a block special file with its major and minor device
  numbers, or a directory.
\<close>

datatype inode = Regular string | BlockDev nat nat | Directory

type_synonym fs = "string \<Rightarrow> inode option"

definition is_block :: "fs \<Rightarrow> string \<Rightarrow> bool" where
  "is_block files p = (case files p of Some (BlockDev ma mi) \<Rightarrow> True | _ \<Rightarrow> False)"

definition is_dir :: "fs \<Rightarrow> string \<Rightarrow> bool" where
  "is_dir files p = (case files p of Some Directory \<Rightarrow> True | _ \<Rightarrow> False)"

definition hexdigit :: "nat \<Rightarrow> char" where
  "hexdigit d = ''0123456789abcdef'' ! d"

fun hex :: "nat \<Rightarrow> string" where
  "hex n = (if n < 16 then [hexdigit n] else hex (n div 16) @ [hexdigit (n mod 16)])"

text \<open>
  \<open>stat --format '%t%T'\<close>: the major and the minor device type of the file in
  hexadecimal, printed one after the other with nothing in between; both are 0 for a
  file that is no device. \<open>None\<close> when the file does not exist and stat fails.
\<close>

definition stat_tT :: "fs \<Rightarrow> string \<Rightarrow> string option" where
  "stat_tT files p =
     (case files p of
        None \<Rightarrow> None
      | Some (BlockDev ma mi) \<Rightarrow> Some (hex ma @ hex mi)
      | Some _ \<Rightarrow> Some ''00'')"

subsection \<open>blockDevMapper\<close>

text \<open>
  The arguments the script passes to \<open>cp\<close>. Under \<open>set -e\<close> a failing \<open>stat\<close> ends
  the script before \<open>cp\<close> runs: \<open>None\<close>.
\<close>

definition CP_ARGS :: "fs \<Rightarrow> string \<Rightarrow> string \<Rightarrow> string list option" where
  "CP_ARGS files PVC_SOURCE PVC_DEST =
     (let args = [''--archive'', ''--dereference'', ''--verbose''] in
      if is_block files PVC_DEST then
        (case stat_tT files PVC_SOURCE of
           None \<Rightarrow> None
         | Some PVC_SOURCE_MAJ_MIN \<Rightarrow>
             (case stat_tT files PVC_DEST of
                None \<Rightarrow> None
              | Some PVC_DEST_MAJ_MIN \<Rightarrow>
                  if PVC_SOURCE_MAJ_MIN = PVC_DEST_MAJ_MIN
                  then Some (args @ [''--no-clobber''])
                  else Some (args @ [''--remove-destination''])))
      else Some args)"

text \<open>The script, with \<open>cp\<close> as a parameter: its exit status and the files it leaves.\<close>

type_synonym cp_tool = "string list \<Rightarrow> string \<Rightarrow> string \<Rightarrow> fs \<Rightarrow> nat \<times> fs"

definition blockDevMapper :: "cp_tool \<Rightarrow> string \<Rightarrow> string \<Rightarrow> fs \<Rightarrow> nat \<times> fs" where
  "blockDevMapper cp PVC_SOURCE PVC_DEST files =
     (case CP_ARGS files PVC_SOURCE PVC_DEST of
        None \<Rightarrow> (1, files)
      | Some args \<Rightarrow> cp args PVC_SOURCE PVC_DEST files)"

text \<open>
  Modelled from the spec: \<open>cp\<close> is an external tool. With \<open>--no-clobber\<close> an existing
  destination is left as it is; with \<open>--remove-destination\<close> it is removed and replaced
  by the source; without either, the source is copied to a destination that does not
  exist, and a destination that exists makes the copy of a special file fail.
\<close>

definition gnu_cp :: cp_tool where
  "gnu_cp args src dst files =
     (case files src of
        None \<Rightarrow> (1, files)
      | Some f \<Rightarrow>
          if files dst = None then (0, files(dst \<mapsto> f))
          else if ''--no-clobber'' \<in> set args then (0, files)
          else if ''--remove-destination'' \<in> set args then (0, files(dst \<mapsto> f))
          else (1, files))"

subsection \<open>getKEKFromVaultWithToken\<close>

text \<open>
  The external commands of the script are parameters: the path \<open>mktemp\<close> creates, the
  exit status and output of \<open>curl\<close>, and what the three \<open>python3\<close> one-liners answer on a
  payload: whether it has a \<open>warnings\<close> field, whether it has an \<open>errors\<close> field, and the
  key under the data path (\<open>None\<close> when the lookup raises). The assembly of \<open>ARGS\<close> only
  shapes the request of \<open>curl\<close>.
\<close>

record kek_tools =
  mktemp :: "string option"
  curl :: "nat \<times> string"
  has_warnings :: "string \<Rightarrow> bool"
  has_errors :: "string \<Rightarrow> bool"
  lookup_key :: "string \<Rightarrow> string option"


subsection \<open>openEncryptedBlock\<close>

text \<open>
  The host as the script sees it: the files, and the device-mapper tables by mapping
  name (the words \<open>dmsetup table\<close> prints). The commands run are recorded, oldest first.
\<close>

datatype action = DmsetupVersion | DmsetupTable | DmsetupRemoveForce | LuksOpen | RmKeyFile

record host =
  hfiles :: fs
  tables :: "string \<Rightarrow> string list option"
  trace :: "action list"

text \<open>
  Modelled from the spec: \<open>dmsetup\<close>, \<open>cryptsetup\<close> and \<open>rm\<close> are external tools. Whether
  they succeed is a parameter. A successful \<open>luksOpen\<close> needs the key file, and creates
  the mapped device node and the table of the mapping; a successful
  \<open>dmsetup remove --force\<close> removes both.
\<close>

record crypt_tools =
  dmsetup_version_ok :: bool
  dmsetup_remove_ok :: bool
  luks_accepts :: "string \<Rightarrow> bool"
  luks_node :: inode
  luks_table :: "string list"
  rm_ok :: bool

record open_params =
  KEY_FILE_PATH :: string
  BLOCK_PATH :: string
  DM_NAME :: string
  DM_PATH :: string

definition log_action :: "action \<Rightarrow> host \<Rightarrow> host" where
  "log_action a h = h\<lparr>trace := trace h @ [a]\<rparr>"

definition cryptsetup_luksOpen :: "crypt_tools \<Rightarrow> open_params \<Rightarrow> host \<Rightarrow> nat \<times> host" where
  "cryptsetup_luksOpen t p h =
     (let h1 = log_action LuksOpen h in
      case hfiles h (KEY_FILE_PATH p) of
        Some (Regular k) \<Rightarrow>
          if luks_accepts t k \<and> hfiles h (BLOCK_PATH p) \<noteq> None \<and> tables h (DM_NAME p) = None
          then (0, h1\<lparr>hfiles := (hfiles h)(DM_PATH p \<mapsto> luks_node t),
                       tables := (tables h)(DM_NAME p \<mapsto> luks_table t)\<rparr>)
          else (1, h1)
      | _ \<Rightarrow> (1, h1))"

definition dmsetup_remove_force :: "crypt_tools \<Rightarrow> open_params \<Rightarrow> host \<Rightarrow> nat \<times> host" where
  "dmsetup_remove_force t p h =
     (let h1 = log_action DmsetupRemoveForce h in
      if dmsetup_remove_ok t
      then (0, h1\<lparr>hfiles := (hfiles h)(DM_PATH p := None), tables := (tables h)(DM_NAME p := None)\<rparr>)
      else (1, h1))"

definition rm_f :: "crypt_tools \<Rightarrow> string \<Rightarrow> host \<Rightarrow> nat \<times> host" where
  "rm_f t path h =
     (let h1 = log_action RmKeyFile h in
      if rm_ok t then (0, h1\<lparr>hfiles := (hfiles h)(path := None)\<rparr>) else (1, h1))"

text \<open>The shell function: under \<open>set -e\<close> a failing \<open>luksOpen\<close> ends the script before \<open>rm\<close>.\<close>

definition open_encrypted_block :: "crypt_tools \<Rightarrow> open_params \<Rightarrow> host \<Rightarrow> nat \<times> host" where
  "open_encrypted_block t p h =
     (case cryptsetup_luksOpen t p h of
        (0, h1) \<Rightarrow> rm_f t (KEY_FILE_PATH p) h1
      | (rc, h1) \<Rightarrow> (rc, h1))"

text \<open>The test \<open>[[ "$field" =~ ^[0-9]+\:[0-9]+ ]]\<close>: digits, a colon and a digit at the start.\<close>

definition is_digit :: "char \<Rightarrow> bool" where
  "is_digit c = (c \<in> set ''0123456789'')"

definition matches_major_minor :: "string \<Rightarrow> bool" where
  "matches_major_minor field =
     (takeWhile is_digit field \<noteq> [] \<and>
      (case dropWhile is_digit field of
         c # d # rest \<Rightarrow> c = CHR '':'' \<and> is_digit d
       | _ \<Rightarrow> False))"

text \<open>
  The loop over the words of the table. The word list is expanded once, before the loop;
  the tests on \<open>/sys/dev/block\<close> read the files of the moment.
\<close>

fun check_fields :: "crypt_tools \<Rightarrow> open_params \<Rightarrow> string list \<Rightarrow> host \<Rightarrow> nat \<times> host" where
  "check_fields t p [] h = (0, h)"
| "check_fields t p (field # rest) h =
     (if matches_major_minor field \<and> \<not> is_dir (hfiles h) (''/sys/dev/block/'' @ field)
      then (case dmsetup_remove_force t p h of
              (0, h1) \<Rightarrow>
                (case open_encrypted_block t p h1 of
                   (0, h2) \<Rightarrow> check_fields t p rest h2
                 | (rc, h2) \<Rightarrow> (rc, h2))
            | (rc, h1) \<Rightarrow> (rc, h1))
      else check_fields t p rest h)"

definition dmsetup_table :: "open_params \<Rightarrow> host \<Rightarrow> string list" where
  "dmsetup_table p h = (case tables h (DM_NAME p) of None \<Rightarrow> [] | Some ws \<Rightarrow> ws)"

definition openEncryptedBlock :: "crypt_tools \<Rightarrow> open_params \<Rightarrow> host \<Rightarrow> nat \<times> host" where
  "openEncryptedBlock t p h =
     (let h0 = log_action DmsetupVersion h in
      if \<not> dmsetup_version_ok t then (1, h0)
      else if is_block (hfiles h0) (DM_PATH p)
      then check_fields t p (dmsetup_table p h0) (log_action DmsetupTable h0)
      else open_encrypted_block t p h0)"

text \<open>
  A word of the table is healthy when it is no major:minor pair, or when the block device
  it names still has its directory under \<open>/sys/dev/block\<close>.
\<close>

definition healthy :: "host \<Rightarrow> string \<Rightarrow> bool" where
  "healthy h field = (\<not> matches_major_minor field \<or> is_dir (hfiles h) (''/sys/dev/block/'' @ field))"

subsection \<open>Example hosts\<close>

text \<open>
  The claim \<open>set1-data-0\<close> is attached at \<open>/set1-data-0\<close>; the bridge already holds a
  block file from an earlier start of the pod.
\<close>

definition bridge_fs :: "inode \<Rightarrow> inode \<Rightarrow> fs" where
  "bridge_fs source dest =
     [''/set1-data-0'' \<mapsto> source, ''/var/lib/ceph/osd/ceph-0/block'' \<mapsto> dest]"

text \<open>A Vault that answers with a payload holding the key, one whose payload has no key.\<close>

definition vault_ok :: kek_tools where
  "vault_ok =
     \<lparr>mktemp = Some ''/tmp/tmp.payload'', curl = (0, ''{data}''),
      has_warnings = (\<lambda>_. False), has_errors = (\<lambda>_. False),
      lookup_key = (\<lambda>_. Some ''s3cr3t'')\<rparr>"

definition vault_no_key :: kek_tools where
  "vault_no_key = vault_ok\<lparr>lookup_key := (\<lambda>_. None)\<rparr>"

definition example_params :: open_params where
  "example_params =
     \<lparr>KEY_FILE_PATH = ''/etc/ceph/luks_key'',
      BLOCK_PATH = ''/var/lib/ceph/osd/ceph-0/block-tmp'',
      DM_NAME = ''set1-data-0-block-dmcrypt'',
      DM_PATH = ''/dev/mapper/set1-data-0-block-dmcrypt''\<rparr>"

definition crypt_table :: "string \<Rightarrow> string list" where
  "crypt_table dev = [''0'', ''20967424'', ''crypt'', ''aes-xts-plain64'', ''0000'', ''0'', dev, ''4096'']"

definition tools_ok :: crypt_tools where
  "tools_ok =
     \<lparr>dmsetup_version_ok = True, dmsetup_remove_ok = True,
      luks_accepts = (\<lambda>k. k = ''s3cr3t''), luks_node = BlockDev 253 0,
      luks_table = crypt_table ''8:16'', rm_ok = True\<rparr>"

text \<open>
  Three hosts, each with the key file and the encrypted block on the bridge: one where
  the device is not opened, one where it is opened on a block device that exists (8:16),
  and one where it was opened on a block device that is gone (8:32).
\<close>

definition closed_host :: host where
  "closed_host =
     \<lparr>hfiles = [''/etc/ceph/luks_key'' \<mapsto> Regular ''s3cr3t'',
               ''/var/lib/ceph/osd/ceph-0/block-tmp'' \<mapsto> BlockDev 8 16,
               ''/sys/dev/block/8:16'' \<mapsto> Directory],
      tables = Map.empty, trace = []\<rparr>"

definition opened_host :: host where
  "opened_host =
     closed_host\<lparr>hfiles := (hfiles closed_host)(''/dev/mapper/set1-data-0-block-dmcrypt'' \<mapsto> BlockDev 253 0),
                 tables := [''set1-data-0-block-dmcrypt'' \<mapsto> crypt_table ''8:16'']\<rparr>"

definition stale_host :: host where
  "stale_host =
     closed_host\<lparr>hfiles := (hfiles closed_host)(''/dev/mapper/set1-data-0-block-dmcrypt'' \<mapsto> BlockDev 253 0),
                 tables := [''set1-data-0-block-dmcrypt'' \<mapsto> crypt_table ''8:32'']\<rparr>"

section \<open>The OSD deployment (pkg/operator/ceph/cluster/osd/spec.go)\<close>

subsection \<open>Pod objects\<close>

text \<open>
  The fields of the scheduler's objects that \<open>makeDeployment\<close> and the builders of the
  init containers fill in. Environment variables, probes, labels, annotations and
  placement are left out; no property below reads them. A volume is its name.
\<close>

record VolumeMount =
  vmName :: string
  MountPath :: string
  SubPath :: string
  ReadOnly :: bool

record VolumeDevice =
  vdName :: string
  DevicePath :: string

text \<open>
  The command of a container: one of the shell programs of the file with the values
  substituted for its \<open>%s\<close>, run by \<open>/bin/bash -c\<close>, or a plain argument vector.
\<close>

datatype script =
    Script_activateOSDCode "string list"
  | Script_openEncryptedBlock string string string string
  | Script_getKEKFromVaultWithToken string string
  | Script_blockDevMapper string string

datatype command = NoCommand | Bash script | Exec "string list"

datatype SecurityContext =
    NoSecurityContext | PodSecurityContext | PrivilegedContext | RootPrivilegedContext

record Container =
  cName :: string
  Image :: string
  Command :: command
  Args :: "string list"
  VolumeMounts :: "VolumeMount list"
  VolumeDevices :: "VolumeDevice list"
  securityContext :: SecurityContext
  Resources :: ResourceRequirements

record osdProperties =
  crushHostname :: string
  pvc_ClaimName :: string
  metadataPVC_ClaimName :: string
  walPVC_ClaimName :: string
  resources :: ResourceRequirements
  EncryptedDevice :: bool
  portable :: bool
  tuneSlowDeviceClass :: bool
  tuneFastDeviceClass :: bool
  encrypted :: bool

record OSDInfo =
  ID :: int
  UUID :: string
  CVMode :: string
  BlockPath :: string
  Location :: string
  TopologyAffinity :: string

text \<open>What the builders read of the cluster \<open>c\<close>.\<close>

record Cluster =
  CephVersion_Image :: string
  rookVersion :: string
  IsAtLeastOctopus :: bool
  FSID :: string
  Namespace :: string
  ConfigDir :: string
  DataDirHostPath :: string
  KMS_IsEnabled :: bool
  KMS_Provider :: string
  KMS_IsTokenAuthEnabled :: bool
  Network_IsHost :: bool
  Network_IsMultus :: bool
  Network_IPv6 :: bool
  LogCollector_Enabled :: bool

record PodSpec =
  HostNetwork :: bool
  HostPID :: bool
  HostIPC :: bool
  InitContainers :: "Container list"
  Containers :: "Container list"
  Volumes :: "string list"

datatype osd_error = EmptyVolumes | MultusError | OwnerReferenceError | TopologyAffinityError

subsection \<open>Constants of the file\<close>

definition rookBinariesMountPath :: string where "rookBinariesMountPath = ''/rook''"
definition rookBinariesVolumeName :: string where "rookBinariesVolumeName = ''rook-binaries''"
definition activateOSDVolumeName :: string where "activateOSDVolumeName = ''activate-osd''"
definition activateOSDMountPath :: string where "activateOSDMountPath = ''/var/lib/ceph/osd/ceph-''"
definition blockPVCMapperInitContainer :: string where "blockPVCMapperInitContainer = ''blkdevmapper''"
definition blockEncryptionKMSGetKEKInitContainer :: string where
  "blockEncryptionKMSGetKEKInitContainer = ''encryption-kms-get-kek''"
definition blockEncryptionOpenInitContainer :: string where
  "blockEncryptionOpenInitContainer = ''encryption-open''"
definition blockEncryptionOpenMetadataInitContainer :: string where
  "blockEncryptionOpenMetadataInitContainer = ''encryption-open-metadata''"
definition blockEncryptionOpenWalInitContainer :: string where
  "blockEncryptionOpenWalInitContainer = ''encryption-open-wal''"
definition blockPVCMapperEncryptionInitContainer :: string where
  "blockPVCMapperEncryptionInitContainer = ''blkdevmapper-encryption''"
definition blockPVCMapperEncryptionMetadataInitContainer :: string where
  "blockPVCMapperEncryptionMetadataInitContainer = ''blkdevmapper-metadata-encryption''"
definition blockPVCMapperEncryptionWalInitContainer :: string where
  "blockPVCMapperEncryptionWalInitContainer = ''blkdevmapper-wal-encryption''"
definition blockPVCMetadataMapperInitContainer :: string where
  "blockPVCMetadataMapperInitContainer = ''blkdevmapper-metadata''"
definition blockPVCWalMapperInitContainer :: string where
  "blockPVCWalMapperInitContainer = ''blkdevmapper-wal''"
definition activatePVCOSDInitContainer :: string where "activatePVCOSDInitContainer = ''activate''"
definition expandPVCOSDInitContainer :: string where "expandPVCOSDInitContainer = ''expand-bluefs''"
definition expandEncryptedPVCOSDInitContainer :: string where
  "expandEncryptedPVCOSDInitContainer = ''expand-encrypted-bluefs''"
definition encryptedPVCStatusOSDInitContainer :: string where
  "encryptedPVCStatusOSDInitContainer = ''encrypted-block-status''"
definition DmcryptBlockType :: string where "DmcryptBlockType = ''block-dmcrypt''"
definition DmcryptMetadataType :: string where "DmcryptMetadataType = ''db-dmcrypt''"
definition DmcryptWalType :: string where "DmcryptWalType = ''wal-dmcrypt''"
definition bluestoreBlockName :: string where "bluestoreBlockName = ''block''"
definition bluestoreMetadataName :: string where "bluestoreMetadataName = ''block.db''"
definition bluestoreWalName :: string where "bluestoreWalName = ''block.wal''"

definition defaultTuneFastSettings :: "string list" where
  "defaultTuneFastSettings =
     [''--osd-op-num-threads-per-shard=2'', ''--osd-op-num-shards=8'', ''--osd-recovery-sleep=0'',
      ''--osd-snap-trim-sleep=0'', ''--osd-delete-sleep=0'', ''--bluestore-min-alloc-size=4096'',
      ''--bluestore-prefer-deferred-size=0'', ''--bluestore-compression-min-blob-size=8912'',
      ''--bluestore-compression-max-blob-size=65536'', ''--bluestore-max-blob-size=65536'',
      ''--bluestore-cache-size=3221225472'', ''--bluestore-throttle-cost-per-io=4000'',
      ''--bluestore-deferred-batch-ops=16'']"

definition defaultTuneSlowSettings :: "string list" where
  "defaultTuneSlowSettings =
     [''--osd-recovery-sleep=0.1'', ''--osd-snap-trim-sleep=2'', ''--osd-delete-sleep=2'']"

subsection \<open>Library functions\<close>

definition digit :: "nat \<Rightarrow> char" where
  "digit d = ''0123456789'' ! d"

fun digits :: "nat \<Rightarrow> string" where
  "digits n = (if n < 10 then [digit n] else digits (n div 10) @ [digit (n mod 10)])"

text \<open>\<open>strconv.Itoa\<close>.\<close>

definition Itoa :: "int \<Rightarrow> string" where
  "Itoa i = (if i < 0 then CHR ''-'' # digits (nat (- i)) else digits (nat i))"

text \<open>
  \<open>path.Join\<close> of two elements. Go also cleans the result; the calls of this file join a
  clean absolute path with a file name, which cleaning leaves as it is.
\<close>

definition path_Join :: "string \<Rightarrow> string \<Rightarrow> string" where
  "path_Join a b = a @ ''/'' @ b"

subsection \<open>Helpers that are not in the file\<close>

text \<open>
  Modelled from the spec: \<open>onPVC\<close>, \<open>onPVCWithMetadata\<close> and \<open>onPVCWithWal\<close> of
  \<open>osdProperties\<close> are not under src/. Sections 3 and 4.1: the provisioning mode is
  PersistentVolume when a claim is attached, and the separate metadata and WAL volumes
  are set from the presence of those claims.
\<close>

definition onPVC :: "osdProperties \<Rightarrow> bool" where
  "onPVC osdProps = (pvc_ClaimName osdProps \<noteq> [])"

definition onPVCWithMetadata :: "osdProperties \<Rightarrow> bool" where
  "onPVCWithMetadata osdProps = (metadataPVC_ClaimName osdProps \<noteq> [])"

definition onPVCWithWal :: "osdProperties \<Rightarrow> bool" where
  "onPVCWithWal osdProps = (walPVC_ClaimName osdProps \<noteq> [])"

text \<open>
  Modelled from the spec: \<open>getPvcOSDBridgeMount\<close> and \<open>getPvcOSDBridgeMountActivate\<close> are
  not under src/. Section 4.3: the bridge is a deterministic function of the claim
  identity. The volume is named \<open><claim>-bridge\<close>, the naming the file itself uses for the
  bridges it writes out; the first helper mounts it at \<open>/mnt\<close>, where \<open>getPVCInitContainer\<close>
  copies to, the second at the mount path it is given.
\<close>

definition bridgeName :: "string \<Rightarrow> string" where
  "bridgeName claimName = claimName @ ''-bridge''"

definition getPvcOSDBridgeMount :: "string \<Rightarrow> VolumeMount" where
  "getPvcOSDBridgeMount claimName =
     \<lparr>vmName = bridgeName claimName, MountPath = ''/mnt'', SubPath = [], ReadOnly = False\<rparr>"

definition getPvcOSDBridgeMountActivate :: "string \<Rightarrow> string \<Rightarrow> VolumeMount" where
  "getPvcOSDBridgeMountActivate mountPath claimName =
     \<lparr>vmName = bridgeName claimName, MountPath = mountPath, SubPath = [], ReadOnly = False\<rparr>"

text \<open>
  The other helpers are parameters: the mounts and volumes that the controller, kms and
  volume helpers return, the names and paths of the encryption helpers, the names of the
  containers built elsewhere, the flags of the config package, and whether the helpers
  that can fail do fail (\<open>True\<close>).
\<close>

record osd_deps =
  CephVolumeMounts :: "VolumeMount list"
  RookVolumeMounts :: "VolumeMount list"
  PodVolumes :: "string \<Rightarrow> string list"
  getPVCOSDVolumes :: "osdProperties \<Rightarrow> string list"
  getUdevVolume :: "string \<times> VolumeMount"
  getDeviceMapperVolume :: "string \<times> VolumeMount"
  getDeviceMapperMount :: VolumeMount
  getEncryptionVolume :: "osdProperties \<Rightarrow> string \<times> VolumeMount"
  VaultVolumeAndMount :: "string \<times> VolumeMount"
  ConfigInitContainerName :: string
  ConfigOverrideName :: string
  EtcCephDir :: string
  encryptionKeyPath :: string
  encryptionDMName :: "string \<Rightarrow> string \<Rightarrow> string"
  encryptionDMPath :: "string \<Rightarrow> string \<Rightarrow> string"
  encryptionBlockDestinationCopy :: "string \<Rightarrow> string \<Rightarrow> string"
  GenerateOSDEncryptionSecretName :: "string \<Rightarrow> string"
  ChownContainerName :: string
  LogCollectorContainer :: Container
  LoggingFlags :: "string list"
  osdOnSDNFlag :: "string list"
  osdMetadataDeviceEnvVarName :: string
  osdWalDeviceEnvVarName :: string
  ApplyMultus_fails :: bool
  OwnerInfo_SetControllerReference_fails :: bool
  GenerateNodeAffinity_fails :: bool

text \<open>
  Modelled from the spec: \<open>controller.ChownCephDataDirsInitContainer\<close> is not under src/.
  Section 4.2, step 7: one step that sets the ownership of the final data directory,
  recursively. It runs with the mounts, resources and security context it is given.
\<close>

definition ChownCephDataDirsInitContainer ::
  "osd_deps \<Rightarrow> string \<Rightarrow> string \<Rightarrow> VolumeMount list \<Rightarrow> ResourceRequirements \<Rightarrow> SecurityContext \<Rightarrow> Container" where
  "ChownCephDataDirsInitContainer deps ContainerDataDir containerImage volumeMounts res sc =
     \<lparr>cName = ChownContainerName deps, Image = containerImage, Command = Exec [''chown''],
      Args = [''--verbose'', ''--recursive'', ''ceph:ceph'']
               @ (if ContainerDataDir \<noteq> [] then [ContainerDataDir] else []),
      VolumeMounts = volumeMounts, VolumeDevices = [],
      securityContext = sc, Resources = res\<rparr>"

subsection \<open>The builders of the init containers\<close>

definition getCopyBinariesContainer :: "Cluster \<Rightarrow> string \<times> Container" where
  "getCopyBinariesContainer c =
     (let mount = \<lparr>vmName = rookBinariesVolumeName, MountPath = rookBinariesMountPath,
                    SubPath = [], ReadOnly = False\<rparr>
      in (rookBinariesVolumeName,
          \<lparr>cName = ''copy-bins'', Image = rookVersion c, Command = NoCommand,
           Args = [''copy-binaries'', ''--copy-to-dir'', rookBinariesMountPath],
           VolumeMounts = [mount], VolumeDevices = [],
           securityContext = NoSecurityContext,
           Resources = \<lparr>LimitsMemory = 0, RequestsMemory = 0\<rparr>\<rparr>))"

definition getActivateOSDInitContainer ::
  "osd_deps \<Rightarrow> Cluster \<Rightarrow> string \<Rightarrow> OSDInfo \<Rightarrow> osdProperties \<Rightarrow> string \<times> Container" where
  "getActivateOSDInitContainer deps c osdID osdInfo osdProps =
     (let osdStore = ''--bluestore'';
          activateOSDMountPathID = activateOSDMountPath @ osdID;
          volMounts =
            [\<lparr>vmName = activateOSDVolumeName, MountPath = activateOSDMountPathID,
              SubPath = [], ReadOnly = False\<rparr>,
             \<lparr>vmName = ''devices'', MountPath = ''/dev'', SubPath = [], ReadOnly = False\<rparr>,
             \<lparr>vmName = ConfigOverrideName deps, MountPath = EtcCephDir deps,
              SubPath = [], ReadOnly = True\<rparr>]
            @ (if onPVC osdProps then [getPvcOSDBridgeMount (pvc_ClaimName osdProps)] else [])
      in (activateOSDVolumeName,
          \<lparr>cName = ''activate'', Image = CephVersion_Image c,
           Command = Bash (Script_activateOSDCode
                       [osdID, UUID osdInfo, osdStore, CVMode osdInfo, BlockPath osdInfo,
                        osdMetadataDeviceEnvVarName deps, osdWalDeviceEnvVarName deps]),
           Args = [], VolumeMounts = volMounts, VolumeDevices = [],
           securityContext = PrivilegedContext, Resources = resources osdProps\<rparr>))"

definition getPVCInitContainer :: "Cluster \<Rightarrow> osdProperties \<Rightarrow> Container" where
  "getPVCInitContainer c osdProps =
     \<lparr>cName = blockPVCMapperInitContainer, Image = CephVersion_Image c,
      Command = Bash (Script_blockDevMapper (''/'' @ pvc_ClaimName osdProps)
                                             (''/mnt/'' @ pvc_ClaimName osdProps)),
      Args = [],
      VolumeMounts = [getPvcOSDBridgeMount (pvc_ClaimName osdProps)],
      VolumeDevices = [\<lparr>vdName = pvc_ClaimName osdProps,
                         DevicePath = ''/'' @ pvc_ClaimName osdProps\<rparr>],
      securityContext = PodSecurityContext, Resources = resources osdProps\<rparr>"

definition getPVCInitContainerActivate :: "osd_deps \<Rightarrow> Cluster \<Rightarrow> string \<Rightarrow> osdProperties \<Rightarrow> Container" where
  "getPVCInitContainerActivate deps c mountPath osdProps =
     (let cpDestinationName =
            (if encrypted osdProps
             then encryptionBlockDestinationCopy deps mountPath bluestoreBlockName
             else path_Join mountPath bluestoreBlockName)
      in \<lparr>cName = blockPVCMapperInitContainer, Image = CephVersion_Image c,
          Command = Bash (Script_blockDevMapper (''/'' @ pvc_ClaimName osdProps) cpDestinationName),
          Args = [],
          VolumeMounts = [getPvcOSDBridgeMountActivate mountPath (pvc_ClaimName osdProps)],
          VolumeDevices = [\<lparr>vdName = pvc_ClaimName osdProps,
                             DevicePath = ''/'' @ pvc_ClaimName osdProps\<rparr>],
          securityContext = PodSecurityContext, Resources = resources osdProps\<rparr>)"

definition generateEncryptionOpenBlockContainer ::
  "osd_deps \<Rightarrow> Cluster \<Rightarrow> ResourceRequirements \<Rightarrow> string \<Rightarrow> string \<Rightarrow> string \<Rightarrow> string \<Rightarrow> string \<Rightarrow> string \<Rightarrow> Container" where
  "generateEncryptionOpenBlockContainer deps c res containerName pvcName volumeMountPVCName
       cryptBlockType blockType mountPath =
     \<lparr>cName = containerName, Image = CephVersion_Image c,
      Command = Bash (Script_openEncryptedBlock (encryptionKeyPath deps)
                        (encryptionBlockDestinationCopy deps mountPath blockType)
                        (encryptionDMName deps pvcName cryptBlockType)
                        (encryptionDMPath deps pvcName cryptBlockType)),
      Args = [],
      VolumeMounts = [getPvcOSDBridgeMountActivate mountPath volumeMountPVCName,
                      getDeviceMapperMount deps],
      VolumeDevices = [],
      securityContext = PrivilegedContext, Resources = res\<rparr>"

definition generateVaultGetKEK :: "osd_deps \<Rightarrow> Cluster \<Rightarrow> osdProperties \<Rightarrow> Container" where
  "generateVaultGetKEK deps c osdProps =
     \<lparr>cName = blockEncryptionKMSGetKEKInitContainer, Image = CephVersion_Image c,
      Command = Bash (Script_getKEKFromVaultWithToken
                        (GenerateOSDEncryptionSecretName deps (pvc_ClaimName osdProps))
                        (encryptionKeyPath deps)),
      Args = [], VolumeMounts = [], VolumeDevices = [],
      securityContext = NoSecurityContext, Resources = resources osdProps\<rparr>"

definition add_mount :: "VolumeMount \<Rightarrow> Container \<Rightarrow> Container" where
  "add_mount m cont = cont\<lparr>VolumeMounts := VolumeMounts cont @ [m]\<rparr>"

definition TypeVault :: string where
  "TypeVault = ''vault''"

definition getPVCEncryptionOpenInitContainerActivate ::
  "osd_deps \<Rightarrow> Cluster \<Rightarrow> string \<Rightarrow> osdProperties \<Rightarrow> Container list" where
  "getPVCEncryptionOpenInitContainerActivate deps c mountPath osdProps =
     (let volMount = snd (getEncryptionVolume deps osdProps);
          kek =
            (if KMS_IsEnabled c \<and> KMS_Provider c = TypeVault \<and> KMS_IsTokenAuthEnabled c
             then [add_mount (snd (VaultVolumeAndMount deps))
                     (add_mount volMount (generateVaultGetKEK deps c osdProps))]
             else []);
          blockContainer =
            add_mount volMount
              (generateEncryptionOpenBlockContainer deps c (resources osdProps)
                 blockEncryptionOpenInitContainer (pvc_ClaimName osdProps) (pvc_ClaimName osdProps)
                 DmcryptBlockType bluestoreBlockName mountPath);
          metadata =
            (if onPVCWithMetadata osdProps
             then [add_mount volMount
                     (generateEncryptionOpenBlockContainer deps c (resources osdProps)
                        blockEncryptionOpenMetadataInitContainer (metadataPVC_ClaimName osdProps)
                        (pvc_ClaimName osdProps) DmcryptMetadataType bluestoreMetadataName mountPath)]
             else []);
          wal =
            (if onPVCWithWal osdProps
             then [add_mount volMount
                     (generateEncryptionOpenBlockContainer deps c (resources osdProps)
                        blockEncryptionOpenWalInitContainer (walPVC_ClaimName osdProps)
                        (pvc_ClaimName osdProps) DmcryptWalType bluestoreWalName mountPath)]
             else [])
      in kek @ [blockContainer] @ metadata @ wal)"

definition generateEncryptionCopyBlockContainer ::
  "osd_deps \<Rightarrow> Cluster \<Rightarrow> ResourceRequirements \<Rightarrow> string \<Rightarrow> string \<Rightarrow> string \<Rightarrow> string \<Rightarrow> string \<Rightarrow> string \<Rightarrow> Container" where
  "generateEncryptionCopyBlockContainer deps c res containerName pvcName mountPath
       volumeMountPVCName blockName blockType =
     \<lparr>cName = containerName, Image = CephVersion_Image c,
      Command = Bash (Script_blockDevMapper (encryptionDMPath deps pvcName blockType)
                                             (path_Join mountPath blockName)),
      Args = [],
      VolumeMounts = [getPvcOSDBridgeMountActivate mountPath volumeMountPVCName,
                      getDeviceMapperMount deps],
      VolumeDevices = [],
      securityContext = PodSecurityContext, Resources = res\<rparr>"

definition getPVCEncryptionInitContainerActivate ::
  "osd_deps \<Rightarrow> Cluster \<Rightarrow> string \<Rightarrow> osdProperties \<Rightarrow> Container list" where
  "getPVCEncryptionInitContainerActivate deps c mountPath osdProps =
     [generateEncryptionCopyBlockContainer deps c (resources osdProps)
        blockPVCMapperEncryptionInitContainer (pvc_ClaimName osdProps) mountPath
        (pvc_ClaimName osdProps) bluestoreBlockName DmcryptBlockType]
     @ (if metadataPVC_ClaimName osdProps \<noteq> []
        then [generateEncryptionCopyBlockContainer deps c (resources osdProps)
                blockPVCMapperEncryptionMetadataInitContainer (metadataPVC_ClaimName osdProps)
                mountPath (pvc_ClaimName osdProps) bluestoreMetadataName DmcryptMetadataType]
        else [])
     @ (if walPVC_ClaimName osdProps \<noteq> []
        then [generateEncryptionCopyBlockContainer deps c (resources osdProps)
                blockPVCMapperEncryptionWalInitContainer (walPVC_ClaimName osdProps)
                mountPath (pvc_ClaimName osdProps) bluestoreWalName DmcryptWalType]
        else [])"

text \<open>
  The two builders of the provisioning job write their bridge out: the volume is named
  after the metadata or WAL claim. \<open>makeDeployment\<close> does not call them.
\<close>

definition getPVCMetadataInitContainer :: "Cluster \<Rightarrow> string \<Rightarrow> osdProperties \<Rightarrow> Container" where
  "getPVCMetadataInitContainer c mountPath osdProps =
     \<lparr>cName = blockPVCMetadataMapperInitContainer, Image = CephVersion_Image c,
      Command = Bash (Script_blockDevMapper (''/'' @ metadataPVC_ClaimName osdProps)
                                             (''/srv/'' @ metadataPVC_ClaimName osdProps)),
      Args = [],
      VolumeMounts = [\<lparr>vmName = metadataPVC_ClaimName osdProps @ ''-bridge'',
                        MountPath = ''/srv'', SubPath = [], ReadOnly = False\<rparr>],
      VolumeDevices = [\<lparr>vdName = metadataPVC_ClaimName osdProps,
                         DevicePath = ''/'' @ metadataPVC_ClaimName osdProps\<rparr>],
      securityContext = PodSecurityContext, Resources = resources osdProps\<rparr>"

definition getPVCWalInitContainer :: "Cluster \<Rightarrow> string \<Rightarrow> osdProperties \<Rightarrow> Container" where
  "getPVCWalInitContainer c mountPath osdProps =
     \<lparr>cName = blockPVCWalMapperInitContainer, Image = CephVersion_Image c,
      Command = Bash (Script_blockDevMapper (''/'' @ walPVC_ClaimName osdProps)
                                             (''/wal/'' @ walPVC_ClaimName osdProps)),
      Args = [],
      VolumeMounts = [\<lparr>vmName = walPVC_ClaimName osdProps @ ''-bridge'',
                        MountPath = ''/wal'', SubPath = [], ReadOnly = False\<rparr>],
      VolumeDevices = [\<lparr>vdName = walPVC_ClaimName osdProps,
                         DevicePath = ''/'' @ walPVC_ClaimName osdProps\<rparr>],
      securityContext = PodSecurityContext, Resources = resources osdProps\<rparr>"

definition getPVCMetadataInitContainerActivate :: "osd_deps \<Rightarrow> Cluster \<Rightarrow> string \<Rightarrow> osdProperties \<Rightarrow> Container" where
  "getPVCMetadataInitContainerActivate deps c mountPath osdProps =
     (let cpDestinationName =
            (if encrypted osdProps
             then encryptionBlockDestinationCopy deps mountPath bluestoreMetadataName
             else path_Join mountPath bluestoreMetadataName)
      in \<lparr>cName = blockPVCMetadataMapperInitContainer, Image = CephVersion_Image c,
          Command = Bash (Script_blockDevMapper (''/'' @ metadataPVC_ClaimName osdProps) cpDestinationName),
          Args = [],
          VolumeMounts = [getPvcOSDBridgeMountActivate mountPath (pvc_ClaimName osdProps)],
          VolumeDevices = [\<lparr>vdName = metadataPVC_ClaimName osdProps,
                             DevicePath = ''/'' @ metadataPVC_ClaimName osdProps\<rparr>],
          securityContext = PodSecurityContext, Resources = resources osdProps\<rparr>)"

definition getPVCWalInitContainerActivate :: "osd_deps \<Rightarrow> Cluster \<Rightarrow> string \<Rightarrow> osdProperties \<Rightarrow> Container" where
  "getPVCWalInitContainerActivate deps c mountPath osdProps =
     (let cpDestinationName =
            (if encrypted osdProps
             then encryptionBlockDestinationCopy deps mountPath bluestoreWalName
             else path_Join mountPath bluestoreWalName)
      in \<lparr>cName = blockPVCWalMapperInitContainer, Image = CephVersion_Image c,
          Command = Bash (Script_blockDevMapper (''/'' @ walPVC_ClaimName osdProps) cpDestinationName),
          Args = [],
          VolumeMounts = [getPvcOSDBridgeMountActivate mountPath (pvc_ClaimName osdProps)],
          VolumeDevices = [\<lparr>vdName = walPVC_ClaimName osdProps,
                             DevicePath = ''/'' @ walPVC_ClaimName osdProps\<rparr>],
          securityContext = PodSecurityContext, Resources = resources osdProps\<rparr>)"

definition getActivatePVCInitContainer :: "Cluster \<Rightarrow> osdProperties \<Rightarrow> string \<Rightarrow> Container" where
  "getActivatePVCInitContainer c osdProps osdID =
     (let osdDataPath = activateOSDMountPath @ osdID;
          osdDataBlockPath = path_Join osdDataPath ''block''
      in \<lparr>cName = activatePVCOSDInitContainer, Image = CephVersion_Image c,
          Command = Exec [''ceph-bluestore-tool''],
          Args = [''prime-osd-dir'', ''--dev'', osdDataBlockPath, ''--path'', osdDataPath,
                  ''--no-mon-config''],
          VolumeMounts = [getPvcOSDBridgeMountActivate osdDataPath (pvc_ClaimName osdProps)],
          VolumeDevices = [\<lparr>vdName = pvc_ClaimName osdProps, DevicePath = osdDataBlockPath\<rparr>],
          securityContext = PrivilegedContext, Resources = resources osdProps\<rparr>)"

definition getExpandPVCInitContainer :: "Cluster \<Rightarrow> osdProperties \<Rightarrow> string \<Rightarrow> Container" where
  "getExpandPVCInitContainer c osdProps osdID =
     (let osdDataPath = activateOSDMountPath @ osdID
      in \<lparr>cName = expandPVCOSDInitContainer, Image = CephVersion_Image c,
          Command = Exec [''ceph-bluestore-tool''],
          Args = [''bluefs-bdev-expand'', ''--path'', osdDataPath],
          VolumeMounts = [getPvcOSDBridgeMountActivate osdDataPath (pvc_ClaimName osdProps)],
          VolumeDevices = [],
          securityContext = PrivilegedContext, Resources = resources osdProps\<rparr>)"

definition getExpandEncryptedPVCInitContainer :: "osd_deps \<Rightarrow> Cluster \<Rightarrow> string \<Rightarrow> osdProperties \<Rightarrow> Container" where
  "getExpandEncryptedPVCInitContainer deps c mountPath osdProps =
     (let volMount = [getPvcOSDBridgeMountActivate mountPath (pvc_ClaimName osdProps)]
                       @ [snd (getDeviceMapperVolume deps)]
      in \<lparr>cName = expandEncryptedPVCOSDInitContainer, Image = CephVersion_Image c,
          Command = Exec [''cryptsetup''],
          Args = [''--verbose'', ''resize'',
                  encryptionDMName deps (pvc_ClaimName osdProps) DmcryptBlockType],
          VolumeMounts = volMount, VolumeDevices = [],
          securityContext = PrivilegedContext, Resources = resources osdProps\<rparr>)"

definition getEncryptedStatusPVCInitContainer :: "osd_deps \<Rightarrow> Cluster \<Rightarrow> string \<Rightarrow> osdProperties \<Rightarrow> Container" where
  "getEncryptedStatusPVCInitContainer deps c mountPath osdProps =
     \<lparr>cName = encryptedPVCStatusOSDInitContainer, Image = CephVersion_Image c,
      Command = Exec [''cryptsetup''],
      Args = [''--verbose'', ''status'',
              encryptionDMName deps (pvc_ClaimName osdProps) DmcryptBlockType],
      VolumeMounts = [getPvcOSDBridgeMountActivate mountPath (pvc_ClaimName osdProps)],
      VolumeDevices = [],
      securityContext = PrivilegedContext, Resources = resources osdProps\<rparr>"

subsection \<open>makeDeployment\<close>

text \<open>
  The function is written out variable by variable. An empty \<open>CVMode\<close> stands for \<open>lvm\<close>.
  The three branches on the provisioning and the mode set the flags \<open>doConfigInit\<close>,
  \<open>doBinaryCopyInit\<close> and \<open>doActivateOSDInit\<close> and the command line of the daemon.
\<close>

definition defaultCVMode :: "OSDInfo \<Rightarrow> OSDInfo" where
  "defaultCVMode osd = (if CVMode osd = [] then osd\<lparr>CVMode := ''lvm''\<rparr> else osd)"

definition pvcLVM :: "osdProperties \<Rightarrow> OSDInfo \<Rightarrow> bool" where
  "pvcLVM osdProps osd = (onPVC osdProps \<and> CVMode osd = ''lvm'')"

definition pvcRaw :: "osdProperties \<Rightarrow> OSDInfo \<Rightarrow> bool" where
  "pvcRaw osdProps osd = (onPVC osdProps \<and> CVMode osd = ''raw'')"

definition doConfigInit :: "osdProperties \<Rightarrow> OSDInfo \<Rightarrow> bool" where
  "doConfigInit osdProps osd =
     (if pvcLVM osdProps osd then True else if pvcRaw osdProps osd then False else False)"

definition doBinaryCopyInit :: "osdProperties \<Rightarrow> OSDInfo \<Rightarrow> bool" where
  "doBinaryCopyInit osdProps osd =
     (if pvcLVM osdProps osd then True else if pvcRaw osdProps osd then False else False)"

definition doActivateOSDInit :: "osdProperties \<Rightarrow> OSDInfo \<Rightarrow> bool" where
  "doActivateOSDInit osdProps osd =
     (if pvcLVM osdProps osd then False else if pvcRaw osdProps osd then False else True)"

text \<open>The volumes at the point where the function tests that there are some.\<close>

definition volumes_before_check :: "osd_deps \<Rightarrow> Cluster \<Rightarrow> osdProperties \<Rightarrow> OSDInfo \<Rightarrow> string list" where
  "volumes_before_check deps c osdProps osd =
     PodVolumes deps (if onPVC osdProps then [] else DataDirHostPath c)
     @ (if \<not> onPVC osdProps then [''devices''] else [])
     @ (if onPVC osdProps
        then getPVCOSDVolumes deps osdProps
             @ (if encrypted osdProps \<and> CVMode osd = ''raw''
                then [fst (getEncryptionVolume deps osdProps)]
                     @ (if KMS_IsEnabled c then [fst (VaultVolumeAndMount deps)] else [])
                else [])
        else [])"

definition daemon_volumes :: "osd_deps \<Rightarrow> Cluster \<Rightarrow> osdProperties \<Rightarrow> OSDInfo \<Rightarrow> string list" where
  "daemon_volumes deps c osdProps osd =
     volumes_before_check deps c osdProps osd
     @ [fst (getUdevVolume deps)]
     @ (if encrypted osdProps then [fst (getDeviceMapperVolume deps)] else [])
     @ (if doBinaryCopyInit osdProps osd then [fst (getCopyBinariesContainer c)] else [])
     @ (if doActivateOSDInit osdProps osd
        then [fst (getActivateOSDInitContainer deps c (Itoa (ID osd)) osd osdProps)] else [])"

text \<open>The mounts of the daemon container, which the ownership step gets as well.\<close>

definition daemon_volumeMounts :: "osd_deps \<Rightarrow> Cluster \<Rightarrow> osdProperties \<Rightarrow> OSDInfo \<Rightarrow> VolumeMount list" where
  "daemon_volumeMounts deps c osdProps osd =
     (let osdID = Itoa (ID osd);
          osdDataDirPath = activateOSDMountPath @ osdID
      in CephVolumeMounts deps
         @ (if \<not> onPVC osdProps
            then [\<lparr>vmName = ''devices'', MountPath = ''/dev'', SubPath = [], ReadOnly = False\<rparr>]
            else [])
         @ [snd (getUdevVolume deps)]
         @ (if encrypted osdProps then [snd (getDeviceMapperVolume deps)] else [])
         @ (if doBinaryCopyInit osdProps osd
            then [hd (VolumeMounts (snd (getCopyBinariesContainer c)))] else [])
         @ (if doActivateOSDInit osdProps osd
            then [hd (VolumeMounts (snd (getActivateOSDInitContainer deps c osdID osd osdProps)))]
            else [])
         @ (if pvcLVM osdProps osd then [getPvcOSDBridgeMount (pvc_ClaimName osdProps)] else [])
         @ (if pvcRaw osdProps osd
            then [getPvcOSDBridgeMountActivate osdDataDirPath (pvc_ClaimName osdProps)] else []))"

definition daemon_command :: "osdProperties \<Rightarrow> OSDInfo \<Rightarrow> string list" where
  "daemon_command osdProps osd =
     (if pvcLVM osdProps osd then [path_Join rookBinariesMountPath ''tini''] else [''ceph-osd''])"

definition daemon_args :: "osd_deps \<Rightarrow> Cluster \<Rightarrow> osdProperties \<Rightarrow> OSDInfo \<Rightarrow> string list" where
  "daemon_args deps c osdProps osd =
     (let osdID = Itoa (ID osd) in
      (if pvcLVM osdProps osd
       then [''--'', path_Join rookBinariesMountPath ''rook'', ''ceph'', ''osd'', ''start'', ''--'',
             ''--foreground'', ''--id'', osdID, ''--fsid'', FSID c, ''--cluster'', ''ceph'',
             ''--setuser'', ''ceph'', ''--setgroup'', ''ceph'',
             ''--crush-location='' @ Location osd]
       else [''--foreground'', ''--id'', osdID, ''--fsid'', FSID c,
             ''--setuser'', ''ceph'', ''--setgroup'', ''ceph'',
             ''--crush-location='' @ Location osd])
      @ (if onPVC osdProps
         then (if tuneSlowDeviceClass osdProps then defaultTuneSlowSettings
               else if tuneFastDeviceClass osdProps then defaultTuneFastSettings else [])
         else [])
      @ LoggingFlags deps @ osdOnSDNFlag deps
      @ (if Network_IPv6 c then [''--ms-bind-ipv6=true''] else []))"

text \<open>The init containers, in the order in which the function appends them.\<close>

definition initContainers :: "osd_deps \<Rightarrow> Cluster \<Rightarrow> osdProperties \<Rightarrow> OSDInfo \<Rightarrow> Container list" where
  "initContainers deps c osdProps osd =
     (let osdID = Itoa (ID osd);
          osdDataDirPath = activateOSDMountPath @ osdID;
          dataPath = (if CVMode osd = ''raw'' \<and> onPVC osdProps then activateOSDMountPath @ osdID else [])
      in (if doConfigInit osdProps osd
          then [\<lparr>cName = ConfigInitContainerName deps, Image = rookVersion c, Command = NoCommand,
                  Args = [''ceph'', ''osd'', ''init''],
                  VolumeMounts = RookVolumeMounts deps, VolumeDevices = [],
                  securityContext = RootPrivilegedContext,
                  Resources = \<lparr>LimitsMemory = 0, RequestsMemory = 0\<rparr>\<rparr>]
          else [])
         @ (if doBinaryCopyInit osdProps osd then [snd (getCopyBinariesContainer c)] else [])
         @ (if pvcLVM osdProps osd then [getPVCInitContainer c osdProps] else [])
         @ (if pvcRaw osdProps osd
            then [getPVCInitContainerActivate deps c osdDataDirPath osdProps]
                 @ (if onPVCWithMetadata osdProps
                    then [getPVCMetadataInitContainerActivate deps c osdDataDirPath osdProps] else [])
                 @ (if onPVCWithWal osdProps
                    then [getPVCWalInitContainerActivate deps c osdDataDirPath osdProps] else [])
                 @ (if encrypted osdProps
                    then getPVCEncryptionOpenInitContainerActivate deps c osdDataDirPath osdProps
                         @ getPVCEncryptionInitContainerActivate deps c osdDataDirPath osdProps
                         @ [getEncryptedStatusPVCInitContainer deps c osdDataDirPath osdProps]
                         @ [getExpandEncryptedPVCInitContainer deps c osdDataDirPath osdProps]
                    else [])
                 @ [getActivatePVCInitContainer c osdProps osdID]
                 @ [getExpandPVCInitContainer c osdProps osdID]
            else [])
         @ (if doActivateOSDInit osdProps osd
            then [snd (getActivateOSDInitContainer deps c osdID osd osdProps)] else [])
         @ [ChownCephDataDirsInitContainer deps dataPath (CephVersion_Image c)
              (daemon_volumeMounts deps c osdProps osd) (resources osdProps) RootPrivilegedContext])"

definition osd_container :: "osd_deps \<Rightarrow> Cluster \<Rightarrow> osdProperties \<Rightarrow> OSDInfo \<Rightarrow> Container" where
  "osd_container deps c osdProps osd =
     \<lparr>cName = ''osd'', Image = CephVersion_Image c,
      Command = Exec (daemon_command osdProps osd), Args = daemon_args deps c osdProps osd,
      VolumeMounts = daemon_volumeMounts deps c osdProps osd, VolumeDevices = [],
      securityContext = RootPrivilegedContext, Resources = resources osdProps\<rparr>"

text \<open>
  The pod specification of the deployment, or the error the function returns: no volume,
  a failing Multus annotation, a failing owner reference, or a failing topology affinity
  of a portable OSD.
\<close>

definition makeDeployment :: "osd_deps \<Rightarrow> Cluster \<Rightarrow> osdProperties \<Rightarrow> OSDInfo \<Rightarrow> osd_error + PodSpec" where
  "makeDeployment deps c osdProps osd0 =
     (let osd = defaultCVMode osd0;
          hostPID = (\<not> IsAtLeastOctopus c);
          hostIPC = (EncryptedDevice osdProps \<or> encrypted osdProps)
      in if volumes_before_check deps c osdProps osd = [] then Inl EmptyVolumes
         else if \<not> Network_IsHost c \<and> Network_IsMultus c \<and> ApplyMultus_fails deps then Inl MultusError
         else if OwnerInfo_SetControllerReference_fails deps then Inl OwnerReferenceError
         else if portable osdProps \<and> TopologyAffinity osd \<noteq> [] \<and> GenerateNodeAffinity_fails deps
         then Inl TopologyAffinityError
         else Inr \<lparr>HostNetwork = Network_IsHost c, HostPID = hostPID, HostIPC = hostIPC,
                   InitContainers = initContainers deps c osdProps osd,
                   Containers = [osd_container deps c osdProps osd]
                                @ (if LogCollector_Enabled c then [LogCollectorContainer deps] else []),
                   Volumes = daemon_volumes deps c osdProps osd\<rparr>)"

subsection \<open>An OSD on an encrypted claim with a metadata claim and a Vault\<close>

definition plain_mount :: "string \<Rightarrow> string \<Rightarrow> VolumeMount" where
  "plain_mount n p = \<lparr>vmName = n, MountPath = p, SubPath = [], ReadOnly = False\<rparr>"

definition example_osd_deps :: osd_deps where
  "example_osd_deps =
     \<lparr>CephVolumeMounts = [plain_mount ''rook-config-override'' ''/etc/ceph'',
                          plain_mount ''rook-ceph-log'' ''/var/log/ceph''],
      RookVolumeMounts = [plain_mount ''rook-data'' ''/var/lib/rook''],
      PodVolumes = (\<lambda>p. [''rook-config-override'', ''rook-ceph-log'']),
      getPVCOSDVolumes = (\<lambda>p. [pvc_ClaimName p, bridgeName (pvc_ClaimName p)]),
      getUdevVolume = (''run-udev'', plain_mount ''run-udev'' ''/run/udev''),
      getDeviceMapperVolume = (''dev-mapper'', plain_mount ''dev-mapper'' ''/dev/mapper''),
      getDeviceMapperMount = plain_mount ''dev-mapper'' ''/dev/mapper'',
      getEncryptionVolume = (\<lambda>p. (''osd-encryption-key'', plain_mount ''osd-encryption-key'' ''/etc/ceph'')),
      VaultVolumeAndMount = (''vault'', plain_mount ''vault'' ''/etc/vault''),
      ConfigInitContainerName = ''config-init'',
      ConfigOverrideName = ''rook-config-override'',
      EtcCephDir = ''/etc/ceph'',
      encryptionKeyPath = ''/etc/ceph/luks_key'',
      encryptionDMName = (\<lambda>pvcName blockType. pvcName @ ''-'' @ blockType),
      encryptionDMPath = (\<lambda>pvcName blockType. ''/dev/mapper/'' @ pvcName @ ''-'' @ blockType),
      encryptionBlockDestinationCopy = (\<lambda>mountPath blockType. mountPath @ ''/'' @ blockType @ ''-tmp''),
      GenerateOSDEncryptionSecretName = (\<lambda>pvcName. ''rook-ceph-osd-encryption-key-'' @ pvcName),
      ChownContainerName = ''chown-container-data-dir'',
      LogCollectorContainer =
        \<lparr>cName = ''log-collector'', Image = ''ceph'', Command = NoCommand, Args = [],
         VolumeMounts = [], VolumeDevices = [], securityContext = NoSecurityContext,
         Resources = \<lparr>LimitsMemory = 0, RequestsMemory = 0\<rparr>\<rparr>,
      LoggingFlags = [''--log-to-stderr=true''],
      osdOnSDNFlag = [],
      osdMetadataDeviceEnvVarName = ''ROOK_METADATA_DEVICE'',
      osdWalDeviceEnvVarName = ''ROOK_WAL_DEVICE'',
      ApplyMultus_fails = False,
      OwnerInfo_SetControllerReference_fails = False,
      GenerateNodeAffinity_fails = False\<rparr>"

definition example_cluster :: Cluster where
  "example_cluster =
     \<lparr>CephVersion_Image = ''ceph/ceph:v15'', rookVersion = ''rook/ceph:v1.5'',
      IsAtLeastOctopus = True, FSID = ''fsid'', Namespace = ''rook-ceph'',
      ConfigDir = ''/var/lib/rook'', DataDirHostPath = ''/var/lib/rook'',
      KMS_IsEnabled = True, KMS_Provider = ''vault'', KMS_IsTokenAuthEnabled = True,
      Network_IsHost = False, Network_IsMultus = False, Network_IPv6 = False,
      LogCollector_Enabled = False\<rparr>"

text \<open>
  The topology of the end-to-end example: a claim, encrypted, with a metadata claim and
  no WAL claim. A local device has no claim at all.
\<close>

definition example_osdProps :: osdProperties where
  "example_osdProps =
     \<lparr>crushHostname = ''node1'', pvc_ClaimName = ''set1-data-0'',
      metadataPVC_ClaimName = ''set1-metadata-0'', walPVC_ClaimName = [],
      resources = \<lparr>LimitsMemory = 0, RequestsMemory = 0\<rparr>,
      EncryptedDevice = False, portable = False,
      tuneSlowDeviceClass = False, tuneFastDeviceClass = False, encrypted = True\<rparr>"

definition local_device_osdProps :: osdProperties where
  "local_device_osdProps =
     \<lparr>crushHostname = ''node1'', pvc_ClaimName = [],
      metadataPVC_ClaimName = [], walPVC_ClaimName = [],
      resources = \<lparr>LimitsMemory = 0, RequestsMemory = 0\<rparr>,
      EncryptedDevice = False, portable = False,
      tuneSlowDeviceClass = False, tuneFastDeviceClass = False, encrypted = False\<rparr>"

definition example_osd :: "string \<Rightarrow> OSDInfo" where
  "example_osd mode =
     \<lparr>ID = 0, UUID = ''uuid'', CVMode = mode, BlockPath = ''/dev/sdb'',
      Location = ''root=default host=node1'', TopologyAffinity = []\<rparr>"

text \<open>The names of the init containers of a plan, then those of its containers.\<close>

definition step_names :: "osd_error + PodSpec \<Rightarrow> string list" where
  "step_names r =
     (case r of Inl e \<Rightarrow> []
      | Inr spec \<Rightarrow> map cName (InitContainers spec) @ map cName (Containers spec))"

subsection \<open>Bridges of a plan\<close>

text \<open>
  A mount is a bridge mount when its volume is named \<open><claim>-bridge\<close> for some claim.
  The primary bridge of an OSD on a claim is the bridge of its block claim: mounted at
  the data directory of the OSD in raw mode, at \<open>/mnt\<close> otherwise.
\<close>

definition is_bridge :: "VolumeMount \<Rightarrow> bool" where
  "is_bridge m = suffix ''-bridge'' (vmName m)"

definition primary_bridge :: "osdProperties \<Rightarrow> OSDInfo \<Rightarrow> VolumeMount" where
  "primary_bridge osdProps osd =
     (if CVMode osd = ''raw''
      then getPvcOSDBridgeMountActivate (activateOSDMountPath @ Itoa (ID osd)) (pvc_ClaimName osdProps)
      else getPvcOSDBridgeMount (pvc_ClaimName osdProps))"



text \<open>
  A mount agrees with the bridge \<open>P\<close> when it is no bridge mount or is \<open>P\<close> itself; a
  container agrees with \<open>P\<close> when all its mounts do.
\<close>

definition bridge_ok :: "VolumeMount \<Rightarrow> VolumeMount \<Rightarrow> bool" where
  "bridge_ok P m = (\<not> is_bridge m \<or> m = P)"




definition hostIPC_of :: "osd_error + PodSpec \<Rightarrow> bool option" where
  "hostIPC_of r = (case r of Inl e \<Rightarrow> None | Inr spec \<Rightarrow> Some (HostIPC spec))"

text \<open>
  An init container has the bridge \<open>P\<close> when it mounts it; the key retrieval, which reads
  no device, is exempt.
\<close>

definition has_primary :: "VolumeMount \<Rightarrow> Container \<Rightarrow> bool" where
  "has_primary P cont =
     (cName cont = blockEncryptionKMSGetKEKInitContainer \<or> P \<in> set (VolumeMounts cont))"

section \<open>Properties\<close>

subsection \<open>The precondition of start\<close>

text \<open>
  The pod memory check comes first in \<open>start\<close>: whenever it returns an error, \<open>start\<close>
  returns that error and has sent no request at all, so that no keyring is generated and
  no deployment is created, updated or deleted. Which resources the check rejects is
  decided by \<open>controller.CheckPodMemory\<close>, a parameter here.
\<close>

lemma start_memory_check_error_first:
  "CheckPodMemory deps (mResources m) cephRbdMirrorPodMinimumMemory \<Longrightarrow>
     start deps m st = (Inl ErrCheckingPodMemory, st)"
  by (simp add: start_def)

subsection \<open>Evaluating the examples\<close>

lemmas example_defs = example_deps_def example_mirror_def mirrorDeployment_def AppName_def
  cephRbdMirrorPodMinimumMemory_def
  letterIndex_def indexLetter_def no_faults_def three_mirrors_def conflicting_cluster_def
  authdelete_fault_deps_def delete_fault_deps_def unlabelled_mirror_def unlabelled_cluster_def

lemmas api_defs = Create_def Delete_def List_def updateDeploymentAndWait_def AuthDelete_key_def
  generateKeyring_def record_call_def exists_deployment_def has_label_def

subsection \<open>The delete-and-recreate fallback\<close>

text \<open>
  C4: the claim asks for one delete of the live resource and one recreate once the update
  is rejected. The fallback of \<open>start\<close> sends the delete for the name of the CephRBDMirror
  object, not for the deployment. For a CephRBDMirror named \<open>my-rbd-mirror\<close> whose live
  deployment \<open>rook-ceph-rbd-mirror-a\<close> has another selector, the delete answers NotFound,
  \<open>start\<close> returns that error, nothing is recreated and the live deployment is the old one.
\<close>

theorem C4_fallback_deletes_mirror_name:
  "start example_deps (example_mirror 0) conflicting_cluster =
     (Inl (ErrDeleteDuringRecreate NotFound),
      \<lparr>deployments = [mirrorDeployment ''a'' ''old-app'' ''old''],
       keys = [''client.rbd-mirror.a''],
       calls = [GenerateKeyring ''client.rbd-mirror.a'',
                CreateDeployment (mirrorDeployment ''a'' AppName ''desired''),
                UpdateDeployment (mirrorDeployment ''a'' AppName ''desired''),
                DeleteDeployment ''my-rbd-mirror'']\<rparr>)"
  by (simp add: start_def converge_def cephRbdMirrorPodMinimumMemory_def example_defs api_defs Let_def)

subsection \<open>The cleanup pass\<close>

lemma Delete_no_fault:
  assumes nf: "\<not> f (length (calls st)) (DeleteDeployment n)"
  shows "snd (Delete f n st) = st\<lparr>calls := calls st @ [DeleteDeployment n],
       deployments := filter (\<lambda>x. dName x \<noteq> n) (deployments st)\<rparr>"
proof (cases "exists_deployment n st")
  case True
  then show ?thesis using nf by (simp add: Delete_def record_call_def Let_def)
next
  case False
  then have "filter (\<lambda>x. dName x \<noteq> n) (deployments st) = deployments st"
    by (auto simp: exists_deployment_def filter_id_conv)
  with False show ?thesis using nf by (simp add: Delete_def record_call_def Let_def)
qed

lemma Delete_keys: "keys (snd (Delete f n st)) = keys st"
  by (simp add: Delete_def record_call_def Let_def)

lemma Delete_calls: "calls (snd (Delete f n st)) = calls st @ [DeleteDeployment n]"
  by (simp add: Delete_def record_call_def Let_def)

lemma remove_loop_no_faults:
  "(\<forall>n c. \<not> api_faults deps n c) \<Longrightarrow>
   \<exists>st'. remove_loop deps items st = (Inr (), st') \<and>
     deployments st' = filter (\<lambda>x. dName x \<notin> dName ` {d \<in> set items. stale deps d}) (deployments st) \<and>
     keys st' = filter (\<lambda>k. k \<notin> credential deps ` {d \<in> set items. stale deps d}) (keys st)"
proof (induction items arbitrary: st)
  case Nil
  then show ?case by simp
next
  case (Cons deploy rest)
  show ?case
  proof (cases "stale deps deploy")
    case False
    then have "remove_loop deps (deploy # rest) st = remove_loop deps rest st"
      by (auto simp: stale_def identity_def split: option.splits)
    moreover have "{d \<in> set (deploy # rest). stale deps d} = {d \<in> set rest. stale deps d}"
      using False by auto
    ultimately show ?thesis using Cons.IH[OF Cons.prems, of st] by simp
  next
    case True
    then obtain daemonName index where l: "map_of (dLabels deploy) ''rbd-mirror'' = Some daemonName"
      and i: "NameToIndex deps daemonName = Some index" and nz: "index \<noteq> 0"
      by (auto simp: stale_def identity_def split: option.splits)
    define st1 where "st1 = snd (Delete (api_faults deps) (dName deploy) st)"
    define st2 where "st2 = st1\<lparr>calls := calls st1 @ [AuthDelete (fullDaemonName deps daemonName)],
        keys := filter (\<lambda>k. k \<noteq> fullDaemonName deps daemonName) (keys st1)\<rparr>"
    have a: "AuthDelete_key (api_faults deps) (fullDaemonName deps daemonName) st1 = (Inr (), st2)"
      using Cons.prems by (simp add: AuthDelete_key_def record_call_def Let_def st2_def)
    have step: "remove_loop deps (deploy # rest) st = remove_loop deps rest st2"
      using l i nz a by (simp add: st1_def Let_def)
    have d1: "deployments st2 = filter (\<lambda>x. dName x \<noteq> dName deploy) (deployments st)"
      using Cons.prems by (simp add: st2_def st1_def Delete_no_fault)
    have k1: "keys st2 = filter (\<lambda>k. k \<noteq> credential deps deploy) (keys st)"
      using l by (simp add: st2_def st1_def Delete_keys credential_def)
    have s: "{d \<in> set (deploy # rest). stale deps d} = insert deploy {d \<in> set rest. stale deps d}"
      using True by auto
    from Cons.IH[OF Cons.prems, of st2] obtain st' where
      r: "remove_loop deps rest st2 = (Inr (), st')"
      and rd: "deployments st' = filter (\<lambda>x. dName x \<notin> dName ` {d \<in> set rest. stale deps d}) (deployments st2)"
      and rk: "keys st' = filter (\<lambda>k. k \<notin> credential deps ` {d \<in> set rest. stale deps d}) (keys st2)"
      by blast
    show ?thesis
      unfolding step s using r rd rk d1 k1 by (auto simp: conj_commute intro: filter_cong)
  qed
qed


lemma List_no_faults:
  "\<forall>n c. \<not> api_faults deps n c \<Longrightarrow>
   List (api_faults deps) ''app'' AppName st = (Inr (mirrors st), record_call ListDeployments st)"
  by (simp add: List_def mirrors_def Let_def)

lemma mirrors_record_call: "mirrors (record_call c st) = mirrors st"
  by (simp add: mirrors_def record_call_def)

lemma stale_iff_not_canonical:
  "identity deps d \<noteq> None \<Longrightarrow> stale deps d \<longleftrightarrow> identity deps d \<noteq> Some 0"
  by (auto simp: stale_def split: option.splits)


text \<open>
  C5, as stated, fails: of two live deployments of the class, the canonical one and one
  without the \<open>rbd-mirror\<close> label, both remain after the cleanup pass.
\<close>

theorem C5_unlabelled_counterexample:
  "removeExtraMirrors example_deps (example_mirror 0) unlabelled_cluster =
     (Inr (), unlabelled_cluster\<lparr>calls := [ListDeployments]\<rparr>) \<and>
   length (mirrors (unlabelled_cluster\<lparr>calls := [ListDeployments]\<rparr>)) = 2"
  by (simp add: removeExtraMirrors_def mirrors_def example_defs api_defs Let_def)

text \<open>
  C5, amended: when exactly one of the live deployments of the class has identity 0, every
  other one has a known identity, the names are distinct and no request fails, then after
  the cleanup pass the canonical deployment is the only one of the class that remains, and
  the credential of every other one is deleted.
\<close>

theorem C5_singleton_cleanup:
  assumes nf: "\<forall>n c. \<not> api_faults deps n c"
      and dist: "distinct (map dName (deployments st))"
      and canon: "filter (\<lambda>d. identity deps d = Some 0) (mirrors st) = [c]"
      and known: "\<forall>d \<in> set (mirrors st). identity deps d \<noteq> None"
  shows "\<exists>st'. removeExtraMirrors deps m st = (Inr (), st') \<and> mirrors st' = [c] \<and>
           (\<forall>d \<in> set (mirrors st). d \<noteq> c \<longrightarrow> credential deps d \<notin> set (keys st'))"
proof (cases "length (mirrors st) > 1")
  case False
  have "c \<in> set (filter (\<lambda>d. identity deps d = Some 0) (mirrors st))"
    using canon by simp
  then have "c \<in> set (mirrors st)" by simp
  with False have one: "mirrors st = [c]"
    by (cases "mirrors st") auto
  have "removeExtraMirrors deps m st = (Inr (), record_call ListDeployments st)"
    using False by (simp add: removeExtraMirrors_def List_no_faults[OF nf])
  then show ?thesis using one by (simp add: mirrors_record_call)
next
  case True
  let ?st1 = "record_call ListDeployments st"
  let ?S = "{d \<in> set (mirrors st). stale deps d}"
  from remove_loop_no_faults[OF nf, of "mirrors st" ?st1] obtain st' where
    r: "remove_loop deps (mirrors st) ?st1 = (Inr (), st')"
    and rd: "deployments st' = filter (\<lambda>x. dName x \<notin> dName ` ?S) (deployments ?st1)"
    and rk: "keys st' = filter (\<lambda>k. k \<notin> credential deps ` ?S) (keys ?st1)"
    by blast
  have res: "removeExtraMirrors deps m st = (Inr (), st')"
    using True r by (simp add: removeExtraMirrors_def List_no_faults[OF nf])
  have sub: "set (mirrors st) \<subseteq> set (deployments st)"
    by (auto simp: mirrors_def)
  have inj: "inj_on dName (set (deployments st))"
    using dist by (simp add: distinct_map)
  have key: "\<And>x. x \<in> set (deployments st) \<Longrightarrow> has_label ''app'' AppName x \<Longrightarrow>
               (dName x \<notin> dName ` ?S) = (identity deps x = Some 0)"
  proof -
    fix x assume x: "x \<in> set (deployments st)" and l: "has_label ''app'' AppName x"
    then have xm: "x \<in> set (mirrors st)" by (simp add: mirrors_def)
    have "dName x \<in> dName ` ?S \<longleftrightarrow> x \<in> ?S"
    proof
      assume "dName x \<in> dName ` ?S"
      then obtain y where y: "y \<in> ?S" and e: "dName x = dName y" by auto
      then have "y \<in> set (deployments st)" using sub by auto
      with inj x e have "x = y" by (auto dest: inj_onD)
      with y show "x \<in> ?S" by simp
    qed auto
    then show "(dName x \<notin> dName ` ?S) = (identity deps x = Some 0)"
      using xm known stale_iff_not_canonical[of deps x] by auto
  qed
  have "mirrors st' = filter (\<lambda>x. has_label ''app'' AppName x \<and> dName x \<notin> dName ` ?S) (deployments st)"
    by (simp add: mirrors_def rd record_call_def conj_commute)
  also have "\<dots> = filter (\<lambda>x. has_label ''app'' AppName x \<and> identity deps x = Some 0) (deployments st)"
  proof (rule filter_cong[OF refl])
    fix x assume x: "x \<in> set (deployments st)"
    show "(has_label ''app'' AppName x \<and> dName x \<notin> dName ` ?S) =
          (has_label ''app'' AppName x \<and> identity deps x = Some 0)"
    proof (cases "has_label ''app'' AppName x")
      case True
      then show ?thesis using key[OF x True] by blast
    next
      case False
      then show ?thesis by blast
    qed
  qed
  also have "\<dots> = filter (\<lambda>d. identity deps d = Some 0) (mirrors st)"
    by (simp add: mirrors_def conj_commute)
  finally have m: "mirrors st' = [c]" using canon by simp
  have k: "\<forall>d \<in> set (mirrors st). d \<noteq> c \<longrightarrow> credential deps d \<notin> set (keys st')"
  proof (intro ballI impI)
    fix d assume d: "d \<in> set (mirrors st)" and ne: "d \<noteq> c"
    have "identity deps d \<noteq> Some 0"
    proof
      assume "identity deps d = Some 0"
      with d have "d \<in> set (filter (\<lambda>d. identity deps d = Some 0) (mirrors st))" by simp
      with canon ne show False by simp
    qed
    with d known have "stale deps d" by (simp add: stale_iff_not_canonical)
    with d have "credential deps d \<in> credential deps ` ?S" by blast
    then show "credential deps d \<notin> set (keys st')" by (simp add: rk)
  qed
  show ?thesis using res m k by blast
qed


theorem C5_singleton_cleanup_witness:
  "distinct (map dName (deployments three_mirrors)) \<and>
   filter (\<lambda>d. identity example_deps d = Some 0) (mirrors three_mirrors)
     = [mirrorDeployment ''a'' AppName ''desired''] \<and>
   mirrors (snd (removeExtraMirrors example_deps (example_mirror 0) three_mirrors))
     = [mirrorDeployment ''a'' AppName ''desired'']"
proof -
  have h1: "\<forall>n c. \<not> api_faults example_deps n c"
    by (simp add: example_defs)
  have h2: "distinct (map dName (deployments three_mirrors))"
    by (simp add: example_defs)
  have h3: "filter (\<lambda>d. identity example_deps d = Some 0) (mirrors three_mirrors)
              = [mirrorDeployment ''a'' AppName ''desired'']"
    by (simp add: mirrors_def identity_def has_label_def example_defs)
  have h4: "\<forall>d \<in> set (mirrors three_mirrors). identity example_deps d \<noteq> None"
    by (simp add: mirrors_def identity_def has_label_def example_defs)
  from C5_singleton_cleanup [OF h1 h2 h3 h4, of "example_mirror 0"]
  have "mirrors (snd (removeExtraMirrors example_deps (example_mirror 0) three_mirrors))
          = [mirrorDeployment ''a'' AppName ''desired'']"
    by auto
  with h2 h3 show ?thesis by blast
qed

lemma AuthDelete_key_ok:
  "\<not> f (length (calls st)) (AuthDelete n) \<Longrightarrow>
   AuthDelete_key f n st = (Inr (), st\<lparr>calls := calls st @ [AuthDelete n], keys := filter (\<lambda>k. k \<noteq> n) (keys st)\<rparr>)"
  by (simp add: AuthDelete_key_def record_call_def Let_def)

lemma remove_loop_authdelete_ok:
  "(\<forall>n k. \<not> api_faults deps n (AuthDelete k)) \<Longrightarrow>
   \<exists>st'. remove_loop deps items st = (Inr (), st') \<and>
     set (calls st) \<subseteq> set (calls st') \<and> set (keys st') \<subseteq> set (keys st) \<and>
     (\<forall>d \<in> set items. stale deps d \<longrightarrow>
        DeleteDeployment (dName d) \<in> set (calls st') \<and>
        AuthDelete (credential deps d) \<in> set (calls st') \<and>
        credential deps d \<notin> set (keys st'))"
proof (induction items arbitrary: st)
  case Nil
  then show ?case by simp
next
  case (Cons deploy rest)
  show ?case
  proof (cases "stale deps deploy")
    case False
    then have "remove_loop deps (deploy # rest) st = remove_loop deps rest st"
      by (auto simp: stale_def identity_def split: option.splits)
    then show ?thesis using Cons.IH[OF Cons.prems, of st] False by auto
  next
    case True
    then obtain daemonName index where l: "map_of (dLabels deploy) ''rbd-mirror'' = Some daemonName"
      and i: "NameToIndex deps daemonName = Some index" and nz: "index \<noteq> 0"
      by (auto simp: stale_def identity_def split: option.splits)
    define st1 where "st1 = snd (Delete (api_faults deps) (dName deploy) st)"
    define st2 where "st2 = st1\<lparr>calls := calls st1 @ [AuthDelete (fullDaemonName deps daemonName)],
        keys := filter (\<lambda>k. k \<noteq> fullDaemonName deps daemonName) (keys st1)\<rparr>"
    have a: "AuthDelete_key (api_faults deps) (fullDaemonName deps daemonName) st1 = (Inr (), st2)"
      using Cons.prems by (simp add: AuthDelete_key_ok st2_def)
    have step: "remove_loop deps (deploy # rest) st = remove_loop deps rest st2"
      using l i nz a by (simp add: st1_def Let_def)
    have cr: "credential deps deploy = fullDaemonName deps daemonName"
      using l by (simp add: credential_def)
    have c2: "calls st2 = calls st @ [DeleteDeployment (dName deploy), AuthDelete (credential deps deploy)]"
      by (simp add: st2_def st1_def Delete_calls cr)
    have k2: "keys st2 = filter (\<lambda>k. k \<noteq> credential deps deploy) (keys st)"
      by (simp add: st2_def st1_def Delete_keys cr)
    from Cons.IH[OF Cons.prems, of st2] obtain st' where
      r: "remove_loop deps rest st2 = (Inr (), st')"
      and rc: "set (calls st2) \<subseteq> set (calls st')"
      and rk: "set (keys st') \<subseteq> set (keys st2)"
      and rest: "\<forall>d \<in> set rest. stale deps d \<longrightarrow>
        DeleteDeployment (dName d) \<in> set (calls st') \<and>
        AuthDelete (credential deps d) \<in> set (calls st') \<and>
        credential deps d \<notin> set (keys st')"
      by blast
    have h1: "set (calls st) \<subseteq> set (calls st')" using rc c2 by auto
    have h2: "set (keys st') \<subseteq> set (keys st)" using rk k2 by auto
    have h3: "DeleteDeployment (dName deploy) \<in> set (calls st')" using rc c2 by auto
    have h4: "AuthDelete (credential deps deploy) \<in> set (calls st')" using rc c2 by auto
    have h5: "credential deps deploy \<notin> set (keys st')" using rk k2 by auto
    show ?thesis unfolding step using r h1 h2 h3 h4 h5 rest by auto
  qed
qed

lemma converge_errors:
  "fst (converge deps m d st) \<noteq> Inl (ErrAuthDelete e) \<and> fst (converge deps m d st) \<noteq> Inl (ErrGetMirrors e)"
  by (simp add: converge_def split: prod.splits sum.splits)

lemma start_no_cleanup_error:
  "fst (start deps m st) \<noteq> Inl (ErrAuthDelete e) \<and> fst (start deps m st) \<noteq> Inl (ErrGetMirrors e)"
proof -
  have "\<And>d s x. converge deps m d s \<noteq> (Inl (ErrAuthDelete e), x)"
    using converge_errors[of deps m _ _ e] by (metis fst_conv)
  moreover have "\<And>d s x. converge deps m d s \<noteq> (Inl (ErrGetMirrors e), x)"
    using converge_errors[of deps m _ _ e] by (metis fst_conv)
  ultimately show ?thesis
    by (auto simp: start_def Let_def split: prod.splits sum.splits ownerref.splits option.splits)
qed


text \<open>
  C6, as stated, fails for the credential: when the server fails the delete of the key of
  daemon \<open>b\<close>, the cleanup pass returns at once, and the stale deployment of daemon \<open>c\<close>
  and its key are left, with no request sent for them.
\<close>

theorem C6_credential_failure_counterexample:
  "removeExtraMirrors authdelete_fault_deps (example_mirror 0) three_mirrors =
     (Inl (ErrAuthDelete ServerError),
      \<lparr>deployments = [mirrorDeployment ''a'' AppName ''desired'',
                      mirrorDeployment ''c'' AppName ''legacy''],
       keys = [''client.rbd-mirror.a'', ''client.rbd-mirror.b'', ''client.rbd-mirror.c''],
       calls = [ListDeployments, DeleteDeployment ''rook-ceph-rbd-mirror-b'',
                AuthDelete ''client.rbd-mirror.b'']\<rparr>)"
  by (simp add: removeExtraMirrors_def example_defs api_defs Let_def)

lemma start_after_converge:
  assumes "\<not> CheckPodMemory deps (mResources m) cephRbdMirrorPodMinimumMemory"
      and "GetControllerObjectOwnerReference deps m = RefOk"
      and "generateKeyring (api_faults deps) (fullDaemonName deps (IndexToName deps 0)) st0 = (Inr (), st1)"
      and "rbd_makeDeployment deps
             \<lparr>DaemonID = IndexToName deps 0, ResourceName = AppName @ ''-'' @ IndexToName deps 0\<rparr> m
           = Some d"
      and "\<not> SetControllerReference deps m d"
      and "\<not> SetLastAppliedAnnotation deps d"
      and "converge deps m d st1 = (Inr (), st2)"
  shows "start deps m st0 = (Inr (), snd (removeExtraMirrors deps m st2))"
  using assms by (simp add: start_def Let_def)

text \<open>
  C6, amended: a failed delete of a stale deployment is only logged. Whatever deployment
  deletes fail, as long as no key delete fails the loop returns success and has sent, for
  every stale deployment of the list, the delete of the deployment and the delete of its
  key, and the key is gone. And no failure of the cleanup pass aborts the reconcile pass:
  once the checks of \<open>start\<close> have passed and the deployment has converged, \<open>start\<close> returns
  success, in the state the cleanup pass has left, whatever the cleanup pass returns; so
  \<open>start\<close> never returns the error of the key delete or of the listing.
\<close>

theorem C6_cleanup_failures_not_fatal:
  "((\<forall>n k. \<not> api_faults deps n (AuthDelete k)) \<longrightarrow>
      (\<exists>st'. remove_loop deps items st = (Inr (), st') \<and>
         (\<forall>d \<in> set items. stale deps d \<longrightarrow>
            DeleteDeployment (dName d) \<in> set (calls st') \<and>
            AuthDelete (credential deps d) \<in> set (calls st') \<and>
            credential deps d \<notin> set (keys st')))) \<and>
   (\<not> CheckPodMemory deps (mResources m) cephRbdMirrorPodMinimumMemory \<and>
    GetControllerObjectOwnerReference deps m = RefOk \<and>
    generateKeyring (api_faults deps) (fullDaemonName deps (IndexToName deps 0)) st0 = (Inr (), st1) \<and>
    rbd_makeDeployment deps
      \<lparr>DaemonID = IndexToName deps 0, ResourceName = AppName @ ''-'' @ IndexToName deps 0\<rparr> m
      = Some d \<and>
    \<not> SetControllerReference deps m d \<and> \<not> SetLastAppliedAnnotation deps d \<and>
    converge deps m d st1 = (Inr (), st2) \<longrightarrow>
      start deps m st0 = (Inr (), snd (removeExtraMirrors deps m st2))) \<and>
   fst (start deps m st0) \<noteq> Inl (ErrAuthDelete e) \<and>
   fst (start deps m st0) \<noteq> Inl (ErrGetMirrors e)"
proof (intro conjI impI)
  assume "\<forall>n k. \<not> api_faults deps n (AuthDelete k)"
  from remove_loop_authdelete_ok [OF this, of items st]
  show "\<exists>st'. remove_loop deps items st = (Inr (), st') \<and>
         (\<forall>d \<in> set items. stale deps d \<longrightarrow>
            DeleteDeployment (dName d) \<in> set (calls st') \<and>
            AuthDelete (credential deps d) \<in> set (calls st') \<and>
            credential deps d \<notin> set (keys st'))"
    by blast
next
  assume "\<not> CheckPodMemory deps (mResources m) cephRbdMirrorPodMinimumMemory \<and>
    GetControllerObjectOwnerReference deps m = RefOk \<and>
    generateKeyring (api_faults deps) (fullDaemonName deps (IndexToName deps 0)) st0 = (Inr (), st1) \<and>
    rbd_makeDeployment deps
      \<lparr>DaemonID = IndexToName deps 0, ResourceName = AppName @ ''-'' @ IndexToName deps 0\<rparr> m
      = Some d \<and>
    \<not> SetControllerReference deps m d \<and> \<not> SetLastAppliedAnnotation deps d \<and>
    converge deps m d st1 = (Inr (), st2)"
  then show "start deps m st0 = (Inr (), snd (removeExtraMirrors deps m st2))"
    by (intro start_after_converge) blast+
next
  show "fst (start deps m st0) \<noteq> Inl (ErrAuthDelete e)"
    using start_no_cleanup_error by blast
next
  show "fst (start deps m st0) \<noteq> Inl (ErrGetMirrors e)"
    using start_no_cleanup_error by blast
qed

theorem C6_cleanup_failures_not_fatal_witness:
  "stale delete_fault_deps (mirrorDeployment ''c'' AppName ''legacy'') \<and>
   fst (remove_loop delete_fault_deps (deployments three_mirrors) three_mirrors) = Inr () \<and>
   credential delete_fault_deps (mirrorDeployment ''c'' AppName ''legacy'')
     \<notin> set (keys (snd (remove_loop delete_fault_deps (deployments three_mirrors) three_mirrors))) \<and>
   converge authdelete_fault_deps (example_mirror 0) (mirrorDeployment ''a'' AppName ''desired'')
       (three_mirrors\<lparr>calls := [GenerateKeyring ''client.rbd-mirror.a'']\<rparr>)
     = (Inr (), converged_three_mirrors) \<and>
   fst (removeExtraMirrors authdelete_fault_deps (example_mirror 0) converged_three_mirrors)
     = Inl (ErrAuthDelete ServerError) \<and>
   start authdelete_fault_deps (example_mirror 0) three_mirrors
     = (Inr (), snd (removeExtraMirrors authdelete_fault_deps (example_mirror 0) converged_three_mirrors)) \<and>
   mirrorDeployment ''c'' AppName ''legacy''
     \<in> set (deployments (snd (start authdelete_fault_deps (example_mirror 0) three_mirrors)))"
proof -
  have h: "\<forall>n k. \<not> api_faults delete_fault_deps n (AuthDelete k)"
    by (simp add: example_defs)
  have s: "stale delete_fault_deps (mirrorDeployment ''c'' AppName ''legacy'')"
    by (simp add: stale_def identity_def example_defs)
  have m: "mirrorDeployment ''c'' AppName ''legacy'' \<in> set (deployments three_mirrors)"
    by (simp add: three_mirrors_def)
  from C6_cleanup_failures_not_fatal
         [of delete_fault_deps "deployments three_mirrors" three_mirrors] h
  obtain st' where
    r: "remove_loop delete_fault_deps (deployments three_mirrors) three_mirrors = (Inr (), st')"
    and a: "\<forall>d \<in> set (deployments three_mirrors). stale delete_fault_deps d \<longrightarrow>
            DeleteDeployment (dName d) \<in> set (calls st') \<and>
            AuthDelete (credential delete_fault_deps d) \<in> set (calls st') \<and>
            credential delete_fault_deps d \<notin> set (keys st')"
    by blast
  from a m s have k: "credential delete_fault_deps (mirrorDeployment ''c'' AppName ''legacy'')
                     \<notin> set (keys st')"
    by blast
  have p1: "\<not> CheckPodMemory authdelete_fault_deps (mResources (example_mirror 0))
               cephRbdMirrorPodMinimumMemory"
    by (simp add: example_defs)
  have p2: "GetControllerObjectOwnerReference authdelete_fault_deps (example_mirror 0) = RefOk"
    by (simp add: example_defs)
  have p3: "generateKeyring (api_faults authdelete_fault_deps)
              (fullDaemonName authdelete_fault_deps (IndexToName authdelete_fault_deps 0)) three_mirrors
            = (Inr (), three_mirrors\<lparr>calls := [GenerateKeyring ''client.rbd-mirror.a'']\<rparr>)"
    by (simp add: generateKeyring_def record_call_def example_defs Let_def)
  have p4: "rbd_makeDeployment authdelete_fault_deps
              \<lparr>DaemonID = IndexToName authdelete_fault_deps 0,
               ResourceName = AppName @ ''-'' @ IndexToName authdelete_fault_deps 0\<rparr> (example_mirror 0)
            = Some (mirrorDeployment ''a'' AppName ''desired'')"
    by (simp add: example_defs)
  have p5: "\<not> SetControllerReference authdelete_fault_deps (example_mirror 0)
               (mirrorDeployment ''a'' AppName ''desired'')"
    by (simp add: example_defs)
  have p6: "\<not> SetLastAppliedAnnotation authdelete_fault_deps (mirrorDeployment ''a'' AppName ''desired'')"
    by (simp add: example_defs)
  have p7: "converge authdelete_fault_deps (example_mirror 0) (mirrorDeployment ''a'' AppName ''desired'')
              (three_mirrors\<lparr>calls := [GenerateKeyring ''client.rbd-mirror.a'']\<rparr>)
            = (Inr (), converged_three_mirrors)"
    by (simp add: converge_def converged_three_mirrors_def example_defs api_defs Let_def)
  have f: "removeExtraMirrors authdelete_fault_deps (example_mirror 0) converged_three_mirrors
           = (Inl (ErrAuthDelete ServerError),
              \<lparr>deployments = [mirrorDeployment ''a'' AppName ''desired'',
                              mirrorDeployment ''c'' AppName ''legacy''],
               keys = [''client.rbd-mirror.a'', ''client.rbd-mirror.b'', ''client.rbd-mirror.c''],
               calls = [GenerateKeyring ''client.rbd-mirror.a'',
                        CreateDeployment (mirrorDeployment ''a'' AppName ''desired''),
                        UpdateDeployment (mirrorDeployment ''a'' AppName ''desired''),
                        ListDeployments, DeleteDeployment ''rook-ceph-rbd-mirror-b'',
                        AuthDelete ''client.rbd-mirror.b'']\<rparr>)"
    by (simp add: removeExtraMirrors_def converged_three_mirrors_def example_defs api_defs Let_def)
  from C6_cleanup_failures_not_fatal
         [of authdelete_fault_deps _ _ "example_mirror 0" three_mirrors
             "three_mirrors\<lparr>calls := [GenerateKeyring ''client.rbd-mirror.a'']\<rparr>"
             "mirrorDeployment ''a'' AppName ''desired''" converged_three_mirrors]
       p1 p2 p3 p4 p5 p6 p7
  have st: "start authdelete_fault_deps (example_mirror 0) three_mirrors
     = (Inr (), snd (removeExtraMirrors authdelete_fault_deps (example_mirror 0) converged_three_mirrors))"
    by blast
  have c: "mirrorDeployment ''c'' AppName ''legacy''
     \<in> set (deployments (snd (start authdelete_fault_deps (example_mirror 0) three_mirrors)))"
    unfolding st f by simp
  show ?thesis using s r k p7 f st c by simp
qed

subsection \<open>The device-to-bridge copy\<close>

lemmas shell_example_defs = bridge_fs_def vault_ok_def vault_no_key_def example_params_def
  crypt_table_def tools_ok_def closed_host_def opened_host_def stale_host_def

lemma hex_8: "hex 8 = ''8''" by code_simp
lemma hex_16: "hex 16 = ''10''" by code_simp
lemma hex_129: "hex 129 = ''81''" by code_simp
lemma hex_0: "hex 0 = ''0''" by code_simp


text \<open>
  What holds of the copy policy: a destination that is a block file with the device
  numbers of the source is left as it is, a destination whose \<open>stat\<close> string differs from
  that of the source is removed first, and a destination that is no block file gets the
  plain copy.
\<close>

lemma CP_ARGS_same_device:
  "files dst = Some (BlockDev ma mi) \<Longrightarrow> files src = Some (BlockDev ma mi) \<Longrightarrow>
   CP_ARGS files src dst = Some [''--archive'', ''--dereference'', ''--verbose'', ''--no-clobber'']"
  by (simp add: CP_ARGS_def is_block_def stat_tT_def del: hex.simps)

lemma blockDevMapper_same_device_no_change:
  "files dst = Some (BlockDev ma mi) \<Longrightarrow> files src = Some (BlockDev ma mi) \<Longrightarrow>
   blockDevMapper gnu_cp src dst files = (0, files)"
  by (simp add: blockDevMapper_def CP_ARGS_same_device gnu_cp_def)

lemma CP_ARGS_not_block:
  "\<not> is_block files dst \<Longrightarrow>
   CP_ARGS files src dst = Some [''--archive'', ''--dereference'', ''--verbose'']"
  by (simp add: CP_ARGS_def)

lemma CP_ARGS_changed_device:
  "is_block files dst \<Longrightarrow> stat_tT files src = Some s \<Longrightarrow> stat_tT files dst = Some d \<Longrightarrow> s \<noteq> d \<Longrightarrow>
   CP_ARGS files src dst = Some [''--archive'', ''--dereference'', ''--verbose'', ''--remove-destination'']"
  by (simp add: CP_ARGS_def)


text \<open>
  C2: the claim asks for a forced overwrite whenever the major and minor numbers differ,
  as does the comment above the script. The script compares the strings printed by
  \<open>stat --format '%t%T'\<close>, the two numbers in hexadecimal with nothing in between. The
  source 8:16 and the destination 129:0 both print \<open>810\<close>: the script adds
  \<open>--no-clobber\<close>, exits 0 and leaves the destination, the device node 129:0.
\<close>

theorem C2_colliding_device_numbers_not_overwritten:
  "CP_ARGS (bridge_fs (BlockDev 8 16) (BlockDev 129 0)) ''/set1-data-0'' ''/var/lib/ceph/osd/ceph-0/block''
     = Some [''--archive'', ''--dereference'', ''--verbose'', ''--no-clobber''] \<and>
   fst (blockDevMapper gnu_cp ''/set1-data-0'' ''/var/lib/ceph/osd/ceph-0/block''
          (bridge_fs (BlockDev 8 16) (BlockDev 129 0))) = 0 \<and>
   snd (blockDevMapper gnu_cp ''/set1-data-0'' ''/var/lib/ceph/osd/ceph-0/block''
          (bridge_fs (BlockDev 8 16) (BlockDev 129 0))) ''/var/lib/ceph/osd/ceph-0/block''
     = Some (BlockDev 129 0)"
  by (simp add: CP_ARGS_def blockDevMapper_def gnu_cp_def bridge_fs_def is_block_def stat_tT_def
       hex_8 hex_16 hex_129 hex_0 del: hex.simps)


subsection \<open>The key file\<close>




lemmas crypt_defs = openEncryptedBlock_def open_encrypted_block_def cryptsetup_luksOpen_def
  dmsetup_remove_force_def rm_f_def log_action_def is_block_def is_dir_def dmsetup_table_def
  matches_major_minor_def is_digit_def healthy_def






subsection \<open>Opening the encrypted block again\<close>

lemma check_fields_skip_healthy:
  "list_all (healthy h) pre \<Longrightarrow> check_fields t p (pre @ rest) h = check_fields t p rest h"
  by (induction pre) (auto simp: healthy_def)

lemma check_fields_all_healthy:
  "list_all (healthy h) ws \<Longrightarrow> check_fields t p ws h = (0, h)"
  using check_fields_skip_healthy[of h ws t p "[]"] by simp

lemma healthy_log [simp]: "healthy (log_action a h) f = healthy h f"
  by (simp add: healthy_def log_action_def)

lemma dmsetup_table_log [simp]: "dmsetup_table p (log_action a h) = dmsetup_table p h"
  by (simp add: dmsetup_table_def log_action_def)

lemma hfiles_log [simp]: "hfiles (log_action a h) = hfiles h"
  by (simp add: log_action_def)

lemma list_all_healthy_log [simp]: "list_all (healthy (log_action a h)) fs = list_all (healthy h) fs"
  by (induction fs) auto


text \<open>
  C7: provided \<open>dmsetup version\<close> succeeds, (1) when the mapped device exists and every
  block device named in its table still exists, the step exits 0 and changes nothing:
  the mapping stays; (2) when the mapped device exists and a block device named in its
  table is gone, the step runs \<open>dmsetup remove --force\<close> and then opens the encrypted
  block again, before it goes on with the rest of the table; (3) when the mapped device
  does not exist, the step opens the encrypted block.
\<close>

theorem C7_open_is_reentrant:
  assumes v: "dmsetup_version_ok t"
  shows "(is_block (hfiles h) (DM_PATH p) \<and> list_all (healthy h) (dmsetup_table p h) \<longrightarrow>
            openEncryptedBlock t p h = (0, h\<lparr>trace := trace h @ [DmsetupVersion, DmsetupTable]\<rparr>)) \<and>
         (is_block (hfiles h) (DM_PATH p) \<and> dmsetup_table p h = pre @ field # post \<and>
          list_all (healthy h) pre \<and> \<not> healthy h field \<longrightarrow>
            openEncryptedBlock t p h =
              (case dmsetup_remove_force t p (h\<lparr>trace := trace h @ [DmsetupVersion, DmsetupTable]\<rparr>) of
                 (0, h1) \<Rightarrow>
                   (case open_encrypted_block t p h1 of
                      (0, h2) \<Rightarrow> check_fields t p post h2
                    | (rc, h2) \<Rightarrow> (rc, h2))
               | (rc, h1) \<Rightarrow> (rc, h1))) \<and>
         (\<not> is_block (hfiles h) (DM_PATH p) \<longrightarrow>
            openEncryptedBlock t p h = open_encrypted_block t p (h\<lparr>trace := trace h @ [DmsetupVersion]\<rparr>))"
proof (intro conjI impI)
  let ?h1 = "log_action DmsetupTable (log_action DmsetupVersion h)"
  have h1: "?h1 = h\<lparr>trace := trace h @ [DmsetupVersion, DmsetupTable]\<rparr>"
    by (simp add: log_action_def)
  {
    assume a: "is_block (hfiles h) (DM_PATH p) \<and> list_all (healthy h) (dmsetup_table p h)"
    then have "openEncryptedBlock t p h = check_fields t p (dmsetup_table p h) ?h1"
      using v by (simp add: openEncryptedBlock_def Let_def)
    also have "\<dots> = (0, ?h1)"
      using a by (simp add: check_fields_all_healthy)
    finally show "openEncryptedBlock t p h = (0, h\<lparr>trace := trace h @ [DmsetupVersion, DmsetupTable]\<rparr>)"
      by (simp add: h1)
  }
  {
    assume a: "is_block (hfiles h) (DM_PATH p) \<and> dmsetup_table p h = pre @ field # post \<and>
          list_all (healthy h) pre \<and> \<not> healthy h field"
    then have "openEncryptedBlock t p h = check_fields t p (pre @ field # post) ?h1"
      using v by (simp add: openEncryptedBlock_def Let_def)
    also have "\<dots> = check_fields t p (field # post) ?h1"
      using a by (simp add: check_fields_skip_healthy)
    also have "\<dots> = (case dmsetup_remove_force t p ?h1 of
                 (0, h1) \<Rightarrow>
                   (case open_encrypted_block t p h1 of
                      (0, h2) \<Rightarrow> check_fields t p post h2
                    | (rc, h2) \<Rightarrow> (rc, h2))
               | (rc, h1) \<Rightarrow> (rc, h1))"
      using a by (simp add: healthy_def)
    finally show "openEncryptedBlock t p h =
              (case dmsetup_remove_force t p (h\<lparr>trace := trace h @ [DmsetupVersion, DmsetupTable]\<rparr>) of
                 (0, h1) \<Rightarrow>
                   (case open_encrypted_block t p h1 of
                      (0, h2) \<Rightarrow> check_fields t p post h2
                    | (rc, h2) \<Rightarrow> (rc, h2))
               | (rc, h1) \<Rightarrow> (rc, h1))"
      by (simp only: h1)
  }
  {
    assume "\<not> is_block (hfiles h) (DM_PATH p)"
    then show "openEncryptedBlock t p h = open_encrypted_block t p (h\<lparr>trace := trace h @ [DmsetupVersion]\<rparr>)"
      using v by (simp add: openEncryptedBlock_def Let_def log_action_def)
  }
qed

theorem C7_open_is_reentrant_witness:
  "dmsetup_version_ok tools_ok \<and>
   openEncryptedBlock tools_ok example_params opened_host
     = (0, opened_host\<lparr>trace := [DmsetupVersion, DmsetupTable]\<rparr>) \<and>
   fst (openEncryptedBlock tools_ok example_params stale_host) = 0 \<and>
   trace (snd (openEncryptedBlock tools_ok example_params stale_host))
     = [DmsetupVersion, DmsetupTable, DmsetupRemoveForce, LuksOpen, RmKeyFile] \<and>
   tables (snd (openEncryptedBlock tools_ok example_params stale_host)) ''set1-data-0-block-dmcrypt''
     = Some (crypt_table ''8:16'') \<and>
   trace (snd (openEncryptedBlock tools_ok example_params closed_host))
     = [DmsetupVersion, LuksOpen, RmKeyFile]"
proof -
  have v: "dmsetup_version_ok tools_ok" by (simp add: tools_ok_def)
  have o1: "is_block (hfiles opened_host) (DM_PATH example_params)"
    by (simp add: is_block_def shell_example_defs)
  have o2: "list_all (healthy opened_host) (dmsetup_table example_params opened_host)"
    by (simp add: crypt_defs shell_example_defs)
  have s1: "is_block (hfiles stale_host) (DM_PATH example_params)"
    by (simp add: is_block_def shell_example_defs)
  have s2: "dmsetup_table example_params stale_host
              = [''0'', ''20967424'', ''crypt'', ''aes-xts-plain64'', ''0000'', ''0''] @ ''8:32'' # [''4096'']"
    by (simp add: dmsetup_table_def shell_example_defs)
  have s3: "list_all (healthy stale_host) [''0'', ''20967424'', ''crypt'', ''aes-xts-plain64'', ''0000'', ''0'']"
    by (simp add: crypt_defs shell_example_defs)
  have s4: "\<not> healthy stale_host ''8:32''"
    by (simp add: crypt_defs shell_example_defs)
  have c1: "\<not> is_block (hfiles closed_host) (DM_PATH example_params)"
    by (simp add: is_block_def shell_example_defs)
  note a = C7_open_is_reentrant [OF v, of opened_host example_params, THEN conjunct1, rule_format, OF conjI, OF o1 o2]
  note b = C7_open_is_reentrant [OF v, of stale_host example_params _ _ _, THEN conjunct2, THEN conjunct1, rule_format,
                   of "[''0'', ''20967424'', ''crypt'', ''aes-xts-plain64'', ''0000'', ''0'']" "''8:32''" "[''4096'']"]
  have b': "openEncryptedBlock tools_ok example_params stale_host =
      (case dmsetup_remove_force tools_ok example_params (stale_host\<lparr>trace := trace stale_host @ [DmsetupVersion, DmsetupTable]\<rparr>) of
                 (0, h1) \<Rightarrow>
                   (case open_encrypted_block tools_ok example_params h1 of
                      (0, h2) \<Rightarrow> check_fields tools_ok example_params [''4096''] h2
                    | (rc, h2) \<Rightarrow> (rc, h2))
               | (rc, h1) \<Rightarrow> (rc, h1))"
    using b s1 s2 s3 s4 by blast
  note c = C7_open_is_reentrant [OF v, of closed_host example_params, THEN conjunct2, THEN conjunct2, rule_format, OF c1]
  have r1: "openEncryptedBlock tools_ok example_params opened_host
     = (0, opened_host\<lparr>trace := [DmsetupVersion, DmsetupTable]\<rparr>)"
    using a by (simp add: shell_example_defs)
  have r2: "fst (openEncryptedBlock tools_ok example_params stale_host) = 0"
    unfolding b' by (simp add: crypt_defs shell_example_defs)
  have r3: "trace (snd (openEncryptedBlock tools_ok example_params stale_host))
     = [DmsetupVersion, DmsetupTable, DmsetupRemoveForce, LuksOpen, RmKeyFile]"
    unfolding b' by (simp add: crypt_defs shell_example_defs)
  have r4: "tables (snd (openEncryptedBlock tools_ok example_params stale_host)) ''set1-data-0-block-dmcrypt''
     = Some (crypt_table ''8:16'')"
    unfolding b' by (simp add: crypt_defs shell_example_defs)
  have r5: "trace (snd (openEncryptedBlock tools_ok example_params closed_host))
     = [DmsetupVersion, LuksOpen, RmKeyFile]"
    unfolding c by (simp add: crypt_defs shell_example_defs)
  show ?thesis using v r1 r2 r3 r4 r5 by blast
qed



subsection \<open>The bridge of a plan\<close>

lemma not_bridge_literal:
  "\<not> suffix ''-bridge'' ''devices''"
  "\<not> suffix ''-bridge'' ''activate-osd''"
  "\<not> suffix ''-bridge'' ''rook-binaries''"
  by (simp_all add: suffix_to_prefix)

lemma is_bridge_bridge [simp]:
  "is_bridge (getPvcOSDBridgeMount cl)"
  "is_bridge (getPvcOSDBridgeMountActivate mp cl)"
  by (simp_all add: is_bridge_def getPvcOSDBridgeMount_def getPvcOSDBridgeMountActivate_def
        bridgeName_def suffix_def)

lemma bridge_ok_simps [simp]:
  "bridge_ok P P"
  "\<not> is_bridge m \<Longrightarrow> bridge_ok P m"
  by (simp_all add: bridge_ok_def)

lemma bridge_ok_static [simp]:
  "bridge_ok P \<lparr>vmName = ''devices'', MountPath = a, SubPath = b, ReadOnly = r\<rparr>"
  "bridge_ok P \<lparr>vmName = ''activate-osd'', MountPath = a, SubPath = b, ReadOnly = r\<rparr>"
  "bridge_ok P \<lparr>vmName = ''rook-binaries'', MountPath = a, SubPath = b, ReadOnly = r\<rparr>"
  by (simp_all add: bridge_ok_def is_bridge_def not_bridge_literal)


lemmas flag_defs = doConfigInit_def doBinaryCopyInit_def doActivateOSDInit_def




















lemma primary_raw:
  "pvcRaw osdProps osd \<Longrightarrow> primary_bridge osdProps osd
     = getPvcOSDBridgeMountActivate (activateOSDMountPath @ Itoa (ID osd)) (pvc_ClaimName osdProps)"
  by (simp add: pvcRaw_def primary_bridge_def)








lemma makeDeployment_Inr:
  assumes "makeDeployment deps c osdProps osd0 = Inr spec"
  shows "InitContainers spec = initContainers deps c osdProps (defaultCVMode osd0)"
    and "Containers spec = [osd_container deps c osdProps (defaultCVMode osd0)]
           @ (if LogCollector_Enabled c then [LogCollectorContainer deps] else [])"
    and "HostIPC spec = (EncryptedDevice osdProps \<or> encrypted osdProps)"
  using assms by (auto simp: makeDeployment_def Let_def split: if_splits)



lemma raw_steps_mount_primary:
  assumes raw: "pvcRaw osdProps osd"
  shows "list_all (has_primary (primary_bridge osdProps osd)) (initContainers deps c osdProps osd)"
proof -
  have nl: "\<not> pvcLVM osdProps osd" using raw by (simp add: pvcLVM_def pvcRaw_def)
  have p: "primary_bridge osdProps osd
     = getPvcOSDBridgeMountActivate (activateOSDMountPath @ Itoa (ID osd)) (pvc_ClaimName osdProps)"
    using raw by (rule primary_raw)
  have dv: "getPvcOSDBridgeMountActivate (activateOSDMountPath @ Itoa (ID osd)) (pvc_ClaimName osdProps)
              \<in> set (daemon_volumeMounts deps c osdProps osd)"
    using raw by (simp add: daemon_volumeMounts_def Let_def)
  show ?thesis
    unfolding p using raw nl dv
    by (simp add: initContainers_def Let_def flag_defs has_primary_def
          getPVCInitContainerActivate_def getPVCMetadataInitContainerActivate_def
          getPVCWalInitContainerActivate_def getPVCEncryptionOpenInitContainerActivate_def
          generateEncryptionOpenBlockContainer_def generateVaultGetKEK_def add_mount_def
          getPVCEncryptionInitContainerActivate_def generateEncryptionCopyBlockContainer_def
          getEncryptedStatusPVCInitContainer_def getExpandEncryptedPVCInitContainer_def
          getActivatePVCInitContainer_def getExpandPVCInitContainer_def
          ChownCephDataDirsInitContainer_def)
qed

lemmas name_defs = blockPVCMapperInitContainer_def blockEncryptionKMSGetKEKInitContainer_def
  blockEncryptionOpenInitContainer_def blockEncryptionOpenMetadataInitContainer_def
  blockEncryptionOpenWalInitContainer_def blockPVCMapperEncryptionInitContainer_def
  blockPVCMapperEncryptionMetadataInitContainer_def blockPVCMapperEncryptionWalInitContainer_def
  blockPVCMetadataMapperInitContainer_def blockPVCWalMapperInitContainer_def
  activatePVCOSDInitContainer_def expandPVCOSDInitContainer_def
  expandEncryptedPVCOSDInitContainer_def encryptedPVCStatusOSDInitContainer_def

lemmas osd_example_defs = example_osd_deps_def example_cluster_def example_osdProps_def
  local_device_osdProps_def example_osd_def plain_mount_def

lemmas make_defs = makeDeployment_def defaultCVMode_def volumes_before_check_def
  initContainers_def osd_container_def flag_defs pvcLVM_def pvcRaw_def onPVC_def
  onPVCWithMetadata_def onPVCWithWal_def TypeVault_def

lemmas all_builder_defs = getCopyBinariesContainer_def getActivateOSDInitContainer_def
  getPVCInitContainer_def getPVCInitContainerActivate_def generateEncryptionOpenBlockContainer_def
  generateVaultGetKEK_def add_mount_def getPVCEncryptionOpenInitContainerActivate_def
  generateEncryptionCopyBlockContainer_def getPVCEncryptionInitContainerActivate_def
  getPVCMetadataInitContainerActivate_def getPVCWalInitContainerActivate_def
  getActivatePVCInitContainer_def getExpandPVCInitContainer_def
  getExpandEncryptedPVCInitContainer_def getEncryptedStatusPVCInitContainer_def
  ChownCephDataDirsInitContainer_def

lemma example_plan_exists:
  "\<exists>spec. makeDeployment example_osd_deps example_cluster example_osdProps (example_osd ''raw'') = Inr spec"
  by (simp add: makeDeployment_def volumes_before_check_def defaultCVMode_def onPVC_def
        osd_example_defs Let_def)






subsection \<open>The order of the steps\<close>

text \<open>
  C8, as stated, fails. For a claim prepared by the volume manager (\<open>lvm\<close>), encrypted,
  with a metadata claim and a Vault, the plan has no encryption step at all: config
  init, binary copy, block copy, ownership, daemon. In raw mode the plan has the
  encryption steps, but starts with the copies of the block and of the metadata device
  to the bridge, which the claim's list leaves out.
\<close>

theorem C8_order_counterexample:
  "step_names (makeDeployment example_osd_deps example_cluster example_osdProps (example_osd ''lvm''))
     = [''config-init'', ''copy-bins'', ''blkdevmapper'', ''chown-container-data-dir'', ''osd''] \<and>
   step_names (makeDeployment example_osd_deps example_cluster example_osdProps (example_osd ''raw''))
     = [''blkdevmapper'', ''blkdevmapper-metadata'', ''encryption-kms-get-kek'',
        ''encryption-open'', ''encryption-open-metadata'',
        ''blkdevmapper-encryption'', ''blkdevmapper-metadata-encryption'',
        ''encrypted-block-status'', ''expand-encrypted-bluefs'', ''activate'',
        ''expand-bluefs'', ''chown-container-data-dir'', ''osd'']"
  by (simp add: step_names_def make_defs all_builder_defs name_defs osd_example_defs Let_def)


text \<open>
  C8, amended: for an OSD on a claim in raw mode, encrypted, with a metadata claim, no
  WAL claim and a Vault with token authentication, the plan is, in this order: block
  copy to the bridge, metadata copy to the bridge, key retrieval, block open, metadata
  open, copy of the opened block, copy of the opened metadata, encrypted status,
  encrypted resize, prime activation, capacity expansion, ownership normalization; the
  first container is the daemon; and every init container but the key retrieval mounts
  the bridge of the block claim at the data directory of the OSD.
\<close>

theorem C8_raw_encrypted_plan_order:
  assumes plan: "makeDeployment deps c osdProps osd = Inr spec"
      and pv: "pvc_ClaimName osdProps \<noteq> []" and raw: "CVMode osd = ''raw''"
      and enc: "encrypted osdProps"
      and md: "metadataPVC_ClaimName osdProps \<noteq> []" and wal: "walPVC_ClaimName osdProps = []"
      and kms: "KMS_IsEnabled c" "KMS_Provider c = TypeVault" "KMS_IsTokenAuthEnabled c"
  shows "map cName (InitContainers spec)
           = [blockPVCMapperInitContainer, blockPVCMetadataMapperInitContainer,
              blockEncryptionKMSGetKEKInitContainer,
              blockEncryptionOpenInitContainer, blockEncryptionOpenMetadataInitContainer,
              blockPVCMapperEncryptionInitContainer, blockPVCMapperEncryptionMetadataInitContainer,
              encryptedPVCStatusOSDInitContainer, expandEncryptedPVCOSDInitContainer,
              activatePVCOSDInitContainer, expandPVCOSDInitContainer,
              ChownContainerName deps] \<and>
         cName (hd (Containers spec)) = ''osd'' \<and>
         list_all (has_primary (getPvcOSDBridgeMountActivate
                     (activateOSDMountPath @ Itoa (ID osd)) (pvc_ClaimName osdProps)))
           (InitContainers spec)"
proof -
  have d: "defaultCVMode osd = osd" using raw by (simp add: defaultCVMode_def)
  note s = makeDeployment_Inr[OF plan, unfolded d]
  have r: "pvcRaw osdProps osd" using pv raw by (simp add: pvcRaw_def onPVC_def)
  have nl: "\<not> pvcLVM osdProps osd" using raw by (simp add: pvcLVM_def)
  have names: "map cName (initContainers deps c osdProps osd)
           = [blockPVCMapperInitContainer, blockPVCMetadataMapperInitContainer,
              blockEncryptionKMSGetKEKInitContainer,
              blockEncryptionOpenInitContainer, blockEncryptionOpenMetadataInitContainer,
              blockPVCMapperEncryptionInitContainer, blockPVCMapperEncryptionMetadataInitContainer,
              encryptedPVCStatusOSDInitContainer, expandEncryptedPVCOSDInitContainer,
              activatePVCOSDInitContainer, expandPVCOSDInitContainer,
              ChownContainerName deps]"
    using r nl enc md wal kms
    by (simp add: initContainers_def Let_def flag_defs onPVCWithMetadata_def onPVCWithWal_def
          all_builder_defs)
  have osd: "cName (hd (Containers spec)) = ''osd''"
    unfolding s(2) by (simp add: osd_container_def)
  have b: "list_all (has_primary (getPvcOSDBridgeMountActivate
                     (activateOSDMountPath @ Itoa (ID osd)) (pvc_ClaimName osdProps)))
           (InitContainers spec)"
    using raw_steps_mount_primary[OF r, of deps c] unfolding s(1) primary_raw[OF r] .
  show ?thesis using names osd b unfolding s(1) by blast
qed

theorem C8_raw_encrypted_plan_order_witness:
  "step_names (makeDeployment example_osd_deps example_cluster example_osdProps (example_osd ''raw''))
     = [''blkdevmapper'', ''blkdevmapper-metadata'', ''encryption-kms-get-kek'',
        ''encryption-open'', ''encryption-open-metadata'',
        ''blkdevmapper-encryption'', ''blkdevmapper-metadata-encryption'',
        ''encrypted-block-status'', ''expand-encrypted-bluefs'', ''activate'',
        ''expand-bluefs'', ''chown-container-data-dir'']
       @ map cName (Containers (projr (makeDeployment example_osd_deps example_cluster example_osdProps (example_osd ''raw''))))"
proof -
  from example_plan_exists obtain spec where
    p: "makeDeployment example_osd_deps example_cluster example_osdProps (example_osd ''raw'') = Inr spec"
    by blast
  have "map cName (InitContainers spec)
     = [''blkdevmapper'', ''blkdevmapper-metadata'', ''encryption-kms-get-kek'',
        ''encryption-open'', ''encryption-open-metadata'',
        ''blkdevmapper-encryption'', ''blkdevmapper-metadata-encryption'',
        ''encrypted-block-status'', ''expand-encrypted-bluefs'', ''activate'',
        ''expand-bluefs'', ''chown-container-data-dir'']"
    using C8_raw_encrypted_plan_order [OF p, THEN conjunct1]
    by (simp add: osd_example_defs name_defs TypeVault_def)
  with p show ?thesis by (simp add: step_names_def)
qed


subsection \<open>The host IPC namespace\<close>

text \<open>
  C9, as stated, fails: an OSD on a local device that is not encrypted takes the
  local-device activation path, and its pod has the host IPC flag off.
\<close>

theorem C9_local_device_counterexample:
  "\<not> onPVC local_device_osdProps \<and>
   doActivateOSDInit local_device_osdProps (example_osd ''lvm'') \<and>
   hostIPC_of (makeDeployment example_osd_deps example_cluster local_device_osdProps (example_osd ''lvm''))
     = Some False"
  by (simp add: hostIPC_of_def make_defs osd_example_defs Let_def)


text \<open>
  C9, amended: the pod of a plan has the host IPC flag on exactly when the OSD is
  encrypted, by the store configuration (\<open>EncryptedDevice\<close>) or on its claim
  (\<open>encrypted\<close>).
\<close>

theorem C9_hostIPC_iff_encrypted:
  "makeDeployment deps c osdProps osd = Inr spec \<Longrightarrow>
   HostIPC spec = (EncryptedDevice osdProps \<or> encrypted osdProps)"
  by (rule makeDeployment_Inr(3))

theorem C9_hostIPC_iff_encrypted_witness:
  "hostIPC_of (makeDeployment example_osd_deps example_cluster example_osdProps (example_osd ''raw''))
     = Some True"
proof -
  from example_plan_exists obtain spec where
    p: "makeDeployment example_osd_deps example_cluster example_osdProps (example_osd ''raw'') = Inr spec"
    by blast
  from C9_hostIPC_iff_encrypted [OF p] have "HostIPC spec" by (simp add: example_osdProps_def)
  with p show ?thesis by (simp add: hostIPC_of_def)
qed


end
